theory Spec2Isabelle
  imports Complex_Main "HOL-Library.AList"
begin

section \<open>Weather proxy service (dist/backend/app.py)\<close>

text \<open>
  A shallow embedding of the Flask weather proxy. Python values that travel through the
  handler (JSON payloads, response bodies) are values of \<open>pyval\<close>; a dict is an
  association list in insertion order. Python floats and \<open>time.time()\<close> readings are
  idealised as reals. Every raise of the source is the \<open>Inl\<close> branch of a sum.
\<close>

subsection \<open>Python values and exceptions\<close>

datatype pyval =
    PNone
  | PBool bool
  | PInt int
  | PFloat real
  | PStr string
  | PList "pyval list"
  | PDict "(string \<times> pyval) list"

type_synonym pydict = "(string \<times> pyval) list"

datatype py_exc =
    ValueError string
  | TypeError string
  | AttributeError string
  | KeyError string
  | IndexError string
  | RequestsTimeout
  | RequestsHTTPError int
  | RequestsError string

text \<open>\<open>str(e)\<close> as used for the \<open>detail\<close> field of an upstream failure.\<close>

fun exc_str :: "py_exc \<Rightarrow> string" where
  "exc_str (ValueError m) = m"
| "exc_str (TypeError m) = m"
| "exc_str (AttributeError m) = m"
| "exc_str (KeyError m) = m"
| "exc_str (IndexError m) = m"
| "exc_str RequestsTimeout = ''timeout''"
| "exc_str (RequestsHTTPError st) = ''http error''"
| "exc_str (RequestsError m) = m"

text \<open>Python truthiness: what \<open>if x\<close>, \<open>not x\<close> and \<open>x or y\<close> test.\<close>

fun truthy :: "pyval \<Rightarrow> bool" where
  "truthy PNone = False"
| "truthy (PBool b) = b"
| "truthy (PInt n) = (n \<noteq> 0)"
| "truthy (PFloat r) = (r \<noteq> 0)"
| "truthy (PStr s) = (s \<noteq> [])"
| "truthy (PList xs) = (xs \<noteq> [])"
| "truthy (PDict d) = (d \<noteq> [])"

definition py_or :: "pyval \<Rightarrow> pyval \<Rightarrow> pyval" where
  "py_or x y = (if truthy x then x else y)"

text \<open>\<open>d.get(k, default)\<close> on a dict held as an association list.\<close>

definition dict_get :: "pydict \<Rightarrow> string \<Rightarrow> pyval \<Rightarrow> pyval" where
  "dict_get d k dflt = (case map_of d k of None \<Rightarrow> dflt | Some v \<Rightarrow> v)"

text \<open>\<open>x.get(k, default)\<close> on any value: only a dict has the method.\<close>

fun py_get :: "pyval \<Rightarrow> string \<Rightarrow> pyval \<Rightarrow> py_exc + pyval" where
  "py_get (PDict d) k dflt = Inr (dict_get d k dflt)"
| "py_get v k dflt = Inl (AttributeError ''object has no attribute get'')"

fun py_len :: "pyval \<Rightarrow> py_exc + nat" where
  "py_len (PList xs) = Inr (length xs)"
| "py_len (PStr s) = Inr (length s)"
| "py_len (PDict d) = Inr (length d)"
| "py_len v = Inl (TypeError ''object has no len'')"

text \<open>\<open>x[i]\<close> for a non-negative index \<open>i\<close>; a JSON object has only string keys.\<close>

fun py_getitem :: "pyval \<Rightarrow> nat \<Rightarrow> py_exc + pyval" where
  "py_getitem (PList xs) i =
     (if i < length xs then Inr (xs ! i) else Inl (IndexError ''list index out of range''))"
| "py_getitem (PStr s) i =
     (if i < length s then Inr (PStr [s ! i]) else Inl (IndexError ''string index out of range''))"
| "py_getitem (PDict d) i = Inl (KeyError ''integer key'')"
| "py_getitem v i = Inl (TypeError ''object is not subscriptable'')"

text \<open>The elements a \<open>for\<close> loop visits.\<close>

fun py_iter :: "pyval \<Rightarrow> py_exc + pyval list" where
  "py_iter (PList xs) = Inr xs"
| "py_iter (PStr s) = Inr (map (\<lambda>c. PStr [c]) s)"
| "py_iter (PDict d) = Inr (map (\<lambda>kv. PStr (fst kv)) d)"
| "py_iter v = Inl (TypeError ''object is not iterable'')"

text \<open>\<open>xs[:n]\<close>: a negative bound counts from the end.\<close>

definition py_slice_to :: "'a list \<Rightarrow> int \<Rightarrow> 'a list" where
  "py_slice_to xs n = (if 0 \<le> n then take (nat n) xs else take (length xs - nat (- n)) xs)"

subsection \<open>Builtins and the network\<close>

text \<open>
  \<open>int(s)\<close> and \<open>float(s)\<close> on a string are Python builtins, taken as parameters:
  \<open>None\<close> is the \<open>ValueError\<close> of an unparseable string. An upstream HTTP exchange is the
  function \<open>net\<close> from the request that is sent to what \<open>requests.get\<close> meets.
\<close>

datatype upstream_request =
    OpenMeteoGet real real int
  | WillySearch string real real
  | WillyForecast string int int

datatype http_outcome =
    ConnTimeout
  | ConnError string
  | HttpResponse int "pyval option"

record env =
  str_to_int :: "string \<Rightarrow> int option"
  str_to_float :: "string \<Rightarrow> real option"
  net :: "upstream_request \<Rightarrow> http_outcome"

text \<open>\<open>int(x)\<close> truncates a float towards zero.\<close>

definition trunc_real :: "real \<Rightarrow> int" where
  "trunc_real r = (if 0 \<le> r then \<lfloor>r\<rfloor> else \<lceil>r\<rceil>)"

fun py_int :: "env \<Rightarrow> pyval \<Rightarrow> py_exc + int" where
  "py_int e (PInt n) = Inr n"
| "py_int e (PBool b) = Inr (if b then 1 else 0)"
| "py_int e (PFloat r) = Inr (trunc_real r)"
| "py_int e (PStr s) =
     (case str_to_int e s of None \<Rightarrow> Inl (ValueError ''invalid literal for int()'')
      | Some n \<Rightarrow> Inr n)"
| "py_int e v = Inl (TypeError ''int() argument must be a string or a number'')"

fun py_float :: "env \<Rightarrow> pyval \<Rightarrow> py_exc + real" where
  "py_float e (PInt n) = Inr (real_of_int n)"
| "py_float e (PBool b) = Inr (if b then 1 else 0)"
| "py_float e (PFloat r) = Inr r"
| "py_float e (PStr s) =
     (case str_to_float e s of None \<Rightarrow> Inl (ValueError ''could not convert string to float'')
      | Some r \<Rightarrow> Inr r)"
| "py_float e v = Inl (TypeError ''float() argument must be a string or a number'')"

text \<open>\<open>str(n)\<close> for an int: decimal digits, a minus sign when negative.\<close>

definition digit_char :: "nat \<Rightarrow> char" where
  "digit_char n = ''0123456789'' ! n"

fun str_of_nat :: "nat \<Rightarrow> string" where
  "str_of_nat n =
     (if n < 10 then [digit_char n] else str_of_nat (n div 10) @ [digit_char (n mod 10)])"

definition str_of_int :: "int \<Rightarrow> string" where
  "str_of_int n = (if n < 0 then CHR ''-'' # str_of_nat (nat (- n)) else str_of_nat (nat n))"

text \<open>
  \<open>requests.get(...)\<close>, \<open>raise_for_status()\<close> and \<open>res.json()\<close>: a timeout, any other
  transport failure, an HTTP status from 400 to 599, or a body that is not JSON raise.
\<close>

definition http_get_json :: "env \<Rightarrow> upstream_request \<Rightarrow> py_exc + pyval" where
  "http_get_json e rq =
     (case net e rq of
        ConnTimeout \<Rightarrow> Inl RequestsTimeout
      | ConnError m \<Rightarrow> Inl (RequestsError m)
      | HttpResponse st body \<Rightarrow>
          if 400 \<le> st \<and> st < 600 then Inl (RequestsHTTPError st)
          else (case body of None \<Rightarrow> Inl (RequestsError ''JSONDecodeError'') | Some j \<Rightarrow> Inr j))"

subsection \<open>Configuration\<close>

record config =
  WILLYWEATHER_API_KEY :: string
  USE_MOCK :: bool
  CACHE_TTL_SECONDS :: int
  WEATHER_PROVIDER :: string

subsection \<open>The cache\<close>

type_synonym cache = "string \<rightharpoonup> (real \<times> pydict)"

text \<open>\<open>cache_get\<close> reads the clock once; an entry whose expiry is in the past is popped.\<close>

definition cache_get :: "string \<Rightarrow> real \<Rightarrow> cache \<Rightarrow> pydict option \<times> cache" where
  "cache_get key now c =
     (case c key of
        None \<Rightarrow> (None, c)
      | Some item \<Rightarrow>
          if fst item < now then (None, c(key := None)) else (Some (snd item), c))"

definition cache_set :: "string \<Rightarrow> pydict \<Rightarrow> int \<Rightarrow> real \<Rightarrow> cache \<Rightarrow> cache" where
  "cache_set key data ttl now c = c(key \<mapsto> (now + real_of_int ttl, data))"

subsection \<open>Normalisation\<close>

text \<open>The em dash used as the default summary, as its UTF-8 bytes.\<close>

definition em_dash :: string where
  "em_dash = [char_of (226::nat), char_of (128::nat), char_of (148::nat)]"

definition normalize_day :: "nat \<Rightarrow> pydict \<Rightarrow> pyval" where
  "normalize_day i d =
     PDict [(''day'', PInt (int i + 1)),
            (''summary'', dict_get d ''summary'' (PStr em_dash)),
            (''tempMin'', dict_get d ''tempMin'' PNone),
            (''tempMax'', dict_get d ''tempMax'' PNone)]"

definition normalize_forecast :: "pydict list \<Rightarrow> pydict" where
  "normalize_forecast days =
     [(''forecast'', PList (map (\<lambda>p. normalize_day (fst p) (snd p)) (enumerate 0 days)))]"

subsection \<open>Sequencing of fallible steps\<close>

fun bind_exc :: "py_exc + 'a \<Rightarrow> ('a \<Rightarrow> py_exc + 'b) \<Rightarrow> py_exc + 'b" where
  "bind_exc (Inl x) f = Inl x"
| "bind_exc (Inr v) f = f v"

text \<open>A loop that appends one result per element and stops at the first raise.\<close>

fun map_exc :: "('a \<Rightarrow> py_exc + 'b) \<Rightarrow> 'a list \<Rightarrow> py_exc + 'b list" where
  "map_exc f [] = Inr []"
| "map_exc f (x # xs) =
     (case f x of
        Inl err \<Rightarrow> Inl err
      | Inr y \<Rightarrow> (case map_exc f xs of Inl err \<Rightarrow> Inl err | Inr ys \<Rightarrow> Inr (y # ys)))"

text \<open>\<open>{**base, **extra}\<close>: a key already present keeps its place and takes the new value.\<close>

definition dict_merge :: "pydict \<Rightarrow> pydict \<Rightarrow> pydict" where
  "dict_merge base extra = fold (\<lambda>kv. AList.update (fst kv) (snd kv)) extra base"

subsection \<open>Open-Meteo adapter\<close>

definition map_open_meteo_code :: "int \<Rightarrow> string" where
  "map_open_meteo_code code =
     (if code \<in> set [0] then ''Clear sky''
      else if code \<in> set [1] then ''Mainly clear''
      else if code \<in> set [2] then ''Partly cloudy''
      else if code \<in> set [3] then ''Overcast''
      else if code \<in> set [45, 48] then ''Fog''
      else if code \<in> set [51, 53, 55] then ''Drizzle''
      else if code \<in> set [56, 57] then ''Freezing drizzle''
      else if code \<in> set [61, 63, 65] then ''Rain''
      else if code \<in> set [66, 67] then ''Freezing rain''
      else if code \<in> set [71, 73, 75, 77] then ''Snow''
      else if code \<in> set [80, 81, 82] then ''Rain showers''
      else if code \<in> set [85, 86] then ''Snow showers''
      else if code \<in> set [95] then ''Thunderstorm''
      else if code \<in> set [96, 97, 99] then ''Thunderstorm w/ hail''
      else ''Code '' @ str_of_int code)"

text \<open>The body of the loop over \<open>range(min(len(times), days))\<close>, at index \<open>i\<close>.\<close>

definition open_meteo_day ::
  "env \<Rightarrow> pyval \<Rightarrow> pyval \<Rightarrow> pyval \<Rightarrow> pyval \<Rightarrow> nat \<Rightarrow> py_exc + pydict" where
  "open_meteo_day e tms tmins tmaxs codes i =
     bind_exc (py_len codes) (\<lambda>lc.
     bind_exc (if i < lc
               then bind_exc (py_getitem codes i) (\<lambda>c.
                    bind_exc (py_int e c) (\<lambda>n. Inr (PStr (map_open_meteo_code n))))
               else Inr (PStr em_dash)) (\<lambda>summary.
     bind_exc (py_len tmins) (\<lambda>ln.
     bind_exc (if i < ln
               then bind_exc (py_getitem tmins i) (\<lambda>t.
                    bind_exc (py_float e t) (\<lambda>r. Inr (PFloat r)))
               else Inr PNone) (\<lambda>temp_min.
     bind_exc (py_len tmaxs) (\<lambda>lx.
     bind_exc (if i < lx
               then bind_exc (py_getitem tmaxs i) (\<lambda>t.
                    bind_exc (py_float e t) (\<lambda>r. Inr (PFloat r)))
               else Inr PNone) (\<lambda>temp_max.
     bind_exc (py_getitem tms i) (\<lambda>date.
     Inr [(''date'', date), (''summary'', summary),
          (''tempMin'', temp_min), (''tempMax'', temp_max)])))))))"

text \<open>What \<open>open_meteo_forecast\<close> does with the decoded body \<open>j\<close>.\<close>

definition open_meteo_normalize :: "env \<Rightarrow> pyval \<Rightarrow> int \<Rightarrow> py_exc + pydict" where
  "open_meteo_normalize e j days =
     bind_exc (py_get j ''daily'' (PDict [])) (\<lambda>daily.
     bind_exc (py_get daily ''time'' (PList [])) (\<lambda>tms.
     bind_exc (py_get daily ''temperature_2m_min'' (PList [])) (\<lambda>tmins.
     bind_exc (py_get daily ''temperature_2m_max'' (PList [])) (\<lambda>tmaxs.
     bind_exc (py_get daily ''weathercode'' (PList [])) (\<lambda>codes.
     bind_exc (py_len tms) (\<lambda>lt.
     bind_exc (map_exc (open_meteo_day e tms tmins tmaxs codes)
                 [0 ..< nat (min (int lt) days)]) (\<lambda>out_days.
     Inr (normalize_forecast out_days))))))))"

definition open_meteo_forecast :: "env \<Rightarrow> real \<Rightarrow> real \<Rightarrow> int \<Rightarrow> py_exc + pydict" where
  "open_meteo_forecast e lat lon days =
     bind_exc (http_get_json e (OpenMeteoGet lat lon days)) (\<lambda>j. open_meteo_normalize e j days)"

subsection \<open>WillyWeather adapter\<close>

text \<open>The value \<open>willyweather_find_location_id\<close> returns for the decoded body \<open>data\<close>.\<close>

definition location_id_of :: "env \<Rightarrow> pyval \<Rightarrow> py_exc + int option" where
  "location_id_of e data =
     (let loc = (case data of PDict d \<Rightarrow> dict_get d ''location'' PNone | _ \<Rightarrow> PNone)
      in case loc of
           PDict l \<Rightarrow>
             if truthy loc
             then bind_exc (py_int e (dict_get l ''id'' PNone)) (\<lambda>n. Inr (Some n))
             else Inr None
         | _ \<Rightarrow> Inr None)"

text \<open>Each adapter returns the requests it sent together with its result or raise.\<close>

definition willyweather_find_location_id ::
  "env \<Rightarrow> config \<Rightarrow> real \<Rightarrow> real \<Rightarrow> upstream_request list \<times> (py_exc + int option)" where
  "willyweather_find_location_id e cfg lat lon =
     (if WILLYWEATHER_API_KEY cfg = [] then ([], Inl (ValueError ''WILLYWEATHER_API_KEY missing''))
      else ([WillySearch (WILLYWEATHER_API_KEY cfg) lat lon],
            bind_exc (http_get_json e (WillySearch (WILLYWEATHER_API_KEY cfg) lat lon))
              (location_id_of e)))"

text \<open>The inner loop: the first entry whose \<open>night\<close> flag is falsy (absent counts as false).\<close>

fun find_day_entry :: "pyval list \<Rightarrow> py_exc + pyval option" where
  "find_day_entry [] = Inr None"
| "find_day_entry (en # ens) =
     (case py_get en ''night'' (PBool False) of
        Inl err \<Rightarrow> Inl err
      | Inr night \<Rightarrow> if \<not> truthy night then Inr (Some en) else find_day_entry ens)"

text \<open>Lines 206 to 211: what is appended for the chosen entry, if it is truthy.\<close>

definition day_output :: "pyval \<Rightarrow> py_exc + pydict option" where
  "day_output chosen =
     (if truthy chosen then
        bind_exc (py_get chosen ''precis'' PNone) (\<lambda>precis.
        bind_exc (py_get chosen ''min'' PNone) (\<lambda>mn.
        bind_exc (py_get chosen ''max'' PNone) (\<lambda>mx.
        Inr (Some [(''summary'', py_or precis (PStr em_dash)),
                   (''tempMin'', mn), (''tempMax'', mx)]))))
      else Inr None)"

text \<open>The body of the loop over \<open>days_arr\<close>: the day to append, or \<open>None\<close> when none is.\<close>

definition willy_day :: "pyval \<Rightarrow> py_exc + pydict option" where
  "willy_day d =
     bind_exc (py_get d ''entries'' PNone) (\<lambda>en.
     let entries = py_or en (PList []) in
     bind_exc (py_iter entries) (\<lambda>ens.
     bind_exc (find_day_entry ens) (\<lambda>found.
     let chosen0 = (case found of None \<Rightarrow> PNone | Some c \<Rightarrow> c) in
     bind_exc (if \<not> truthy chosen0 \<and> truthy entries then py_getitem entries 0
               else Inr chosen0) day_output)))"

fun willy_days :: "pyval list \<Rightarrow> py_exc + pydict list" where
  "willy_days [] = Inr []"
| "willy_days (d # ds) =
     (case willy_day d of
        Inl err \<Rightarrow> Inl err
      | Inr r \<Rightarrow>
          (case willy_days ds of
             Inl err \<Rightarrow> Inl err
           | Inr rs \<Rightarrow> Inr (case r of None \<Rightarrow> rs | Some day \<Rightarrow> day # rs)))"

text \<open>What \<open>willyweather_forecast_by_id\<close> does with the decoded body \<open>j0\<close>.\<close>

definition willyweather_normalize :: "pyval \<Rightarrow> int \<Rightarrow> py_exc + pydict" where
  "willyweather_normalize j0 days =
     (let j = py_or j0 (PDict []) in
      bind_exc (py_get j ''forecasts'' PNone) (\<lambda>f.
      bind_exc (py_get (py_or f (PDict [])) ''weather'' PNone) (\<lambda>w.
      let forecasts = py_or w (PDict []) in
      bind_exc (py_get forecasts ''days'' PNone) (\<lambda>dv.
      let days_arr = py_or dv (PList []) in
      bind_exc (py_iter days_arr) (\<lambda>ds.
      bind_exc (willy_days ds) (\<lambda>out_days.
      Inr (normalize_forecast (py_slice_to out_days days))))))))"

definition willyweather_forecast_by_id ::
  "env \<Rightarrow> config \<Rightarrow> int \<Rightarrow> int \<Rightarrow> upstream_request list \<times> (py_exc + pydict)" where
  "willyweather_forecast_by_id e cfg location_id days =
     (if WILLYWEATHER_API_KEY cfg = [] then ([], Inl (ValueError ''WILLYWEATHER_API_KEY missing''))
      else ([WillyForecast (WILLYWEATHER_API_KEY cfg) location_id days],
            bind_exc (http_get_json e (WillyForecast (WILLYWEATHER_API_KEY cfg) location_id days))
              (\<lambda>j. willyweather_normalize j days)))"

subsection \<open>The request handler\<close>

text \<open>
  \<open>request.args.get(name)\<close> is \<open>None\<close> for an absent query parameter. \<open>str.strip\<close> and
  \<open>str.lower\<close> are modelled on ASCII.
\<close>

record request =
  arg_lat :: "string option"
  arg_lon :: "string option"
  arg_days :: "string option"
  arg_provider :: "string option"

definition is_space :: "char \<Rightarrow> bool" where
  "is_space ch = ((of_char ch :: nat) \<in> set [9, 10, 11, 12, 13, 28, 29, 30, 31, 32])"

definition py_strip :: "string \<Rightarrow> string" where
  "py_strip s = rev (dropWhile is_space (rev (dropWhile is_space s)))"

definition py_lower :: "string \<Rightarrow> string" where
  "py_lower s =
     map (\<lambda>ch. let n = (of_char ch :: nat) in if 65 \<le> n \<and> n \<le> 90 then char_of (n + 32) else ch) s"

datatype outcome = Raised py_exc | Response int pydict

text \<open>\<open>(request.args.get('provider') or WEATHER_PROVIDER).strip().lower()\<close>\<close>

definition resolve_provider :: "config \<Rightarrow> request \<Rightarrow> string" where
  "resolve_provider cfg rq =
     py_lower (py_strip (case arg_provider rq of
                           None \<Rightarrow> WEATHER_PROVIDER cfg
                         | Some p \<Rightarrow> if p = [] then WEATHER_PROVIDER cfg else p))"

definition cache_key :: "string \<Rightarrow> string \<Rightarrow> string \<Rightarrow> int \<Rightarrow> string" where
  "cache_key provider lat lon days =
     ''weather:'' @ provider @ '':'' @ lat @ '':'' @ lon @ '':'' @ str_of_int days"

definition mock_forecast :: "int \<Rightarrow> pyval list" where
  "mock_forecast days =
     map (\<lambda>i. PDict [(''day'', PInt (int i + 1)), (''summary'', PStr ''Partly cloudy''),
                     (''tempMin'', PInt (10 + int i)), (''tempMax'', PInt (18 + int i))])
       [0 ..< nat days]"

definition mock_data :: "real \<Rightarrow> real \<Rightarrow> int \<Rightarrow> pydict" where
  "mock_data lat_f lon_f days =
     [(''location'', PDict [(''lat'', PFloat lat_f), (''lon'', PFloat lon_f)]),
      (''days'', PInt days),
      (''mock'', PBool True),
      (''forecast'', PList (mock_forecast days))]"

text \<open>The test of line 244 that guards the mock branch.\<close>

definition mock_selected :: "config \<Rightarrow> string \<Rightarrow> bool" where
  "mock_selected cfg provider =
     (provider = ''mock'' \<or> (provider = WEATHER_PROVIDER cfg \<and> USE_MOCK cfg))"

text \<open>
  The body of the \<open>try\<close> block: the requests sent, and either the raise or the status,
  body and cache the block ends with.
\<close>

definition dispatch ::
  "env \<Rightarrow> config \<Rightarrow> string \<Rightarrow> real \<Rightarrow> real \<Rightarrow> int \<Rightarrow> string \<Rightarrow> real \<Rightarrow> cache
     \<Rightarrow> upstream_request list \<times> (py_exc + (int \<times> pydict \<times> cache))" where
  "dispatch e cfg provider lat_f lon_f days key t_set c =
     (if provider = ''open-meteo'' then
        ([OpenMeteoGet lat_f lon_f days],
         bind_exc (open_meteo_forecast e lat_f lon_f days) (\<lambda>normalized.
           let data = dict_merge
                        [(''location'', PDict [(''lat'', PFloat lat_f), (''lon'', PFloat lon_f)]),
                         (''days'', PInt days)] normalized
           in Inr (200, data, cache_set key data (CACHE_TTL_SECONDS cfg) t_set c)))
      else if provider = ''willyweather'' then
        (case willyweather_find_location_id e cfg lat_f lon_f of
           (calls1, Inl err) \<Rightarrow> (calls1, Inl err)
         | (calls1, Inr None) \<Rightarrow>
             (calls1, Inr (404, [(''error'', PStr ''No WillyWeather location found for coordinates'')], c))
         | (calls1, Inr (Some loc_id)) \<Rightarrow>
             if loc_id = 0 then
               (calls1, Inr (404, [(''error'', PStr ''No WillyWeather location found for coordinates'')], c))
             else
               (case willyweather_forecast_by_id e cfg loc_id days of
                  (calls2, r) \<Rightarrow>
                    (calls1 @ calls2,
                     bind_exc r (\<lambda>normalized.
                       let data = dict_merge
                                    [(''location'', PDict [(''lat'', PFloat lat_f), (''lon'', PFloat lon_f),
                                                           (''willyWeatherLocationId'', PInt loc_id)]),
                                     (''days'', PInt days)] normalized
                       in Inr (200, data, cache_set key data (CACHE_TTL_SECONDS cfg) t_set c)))))
      else ([], Inr (400, [(''error'', PStr (''Unknown provider '' @ [CHR 0x27] @ provider @ [CHR 0x27]))], c)))"

text \<open>The three \<open>except\<close> clauses, in their order.\<close>

fun handle_exc :: "py_exc \<Rightarrow> int \<times> pydict" where
  "handle_exc RequestsTimeout = (504, [(''error'', PStr ''Upstream timeout'')])"
| "handle_exc (RequestsHTTPError st) =
     (502, [(''error'', PStr ''Upstream error''), (''status'', PInt st)])"
| "handle_exc err = (502, [(''error'', PStr ''Upstream failure''), (''detail'', PStr (exc_str err))])"

text \<open>The handler from line 242 on, reached when the cache gave nothing.\<close>

definition weather_miss ::
  "env \<Rightarrow> config \<Rightarrow> real \<Rightarrow> string \<Rightarrow> string \<Rightarrow> string \<Rightarrow> int \<Rightarrow> cache
     \<Rightarrow> outcome \<times> cache \<times> upstream_request list" where
  "weather_miss e cfg t_set provider lat lon days c =
     (let key = cache_key provider lat lon days in
      if mock_selected cfg provider then
        (case str_to_float e lat of
           None \<Rightarrow> (Raised (ValueError ''could not convert string to float''), c, [])
         | Some lat_f \<Rightarrow>
             (case str_to_float e lon of
                None \<Rightarrow> (Raised (ValueError ''could not convert string to float''), c, [])
              | Some lon_f \<Rightarrow>
                  (Response 200 (mock_data lat_f lon_f days),
                   cache_set key (mock_data lat_f lon_f days) (CACHE_TTL_SECONDS cfg) t_set c, [])))
      else
        (case str_to_float e lat of
           None \<Rightarrow> (Response 400 [(''error'', PStr ''Invalid lat/lon'')], c, [])
         | Some lat_f \<Rightarrow>
             (case str_to_float e lon of
                None \<Rightarrow> (Response 400 [(''error'', PStr ''Invalid lat/lon'')], c, [])
              | Some lon_f \<Rightarrow>
                  (case dispatch e cfg provider lat_f lon_f days key t_set c of
                     (calls, Inl err) \<Rightarrow>
                       (Response (fst (handle_exc err)) (snd (handle_exc err)), c, calls)
                   | (calls, Inr (status, body, c')) \<Rightarrow> (Response status body, c', calls)))))"

text \<open>
  The handler \<open>weather\<close>. \<open>t_get\<close> is the clock read by \<open>cache_get\<close>, \<open>t_set\<close> the clock
  read by \<open>cache_set\<close>. The result is what the handler returns or raises, the cache it
  leaves, and the upstream requests it sent.
\<close>

definition weather ::
  "env \<Rightarrow> config \<Rightarrow> real \<Rightarrow> real \<Rightarrow> request \<Rightarrow> cache
     \<Rightarrow> outcome \<times> cache \<times> upstream_request list" where
  "weather e cfg t_get t_set rq c =
     (case str_to_int e (case arg_days rq of None \<Rightarrow> ''7'' | Some s \<Rightarrow> s) of
        None \<Rightarrow> (Raised (ValueError ''invalid literal for int()''), c, [])
      | Some days \<Rightarrow>
          (let provider = resolve_provider cfg rq;
               missing = (Response 400 [(''error'', PStr ''lat and lon are required'')], c, [])
           in case arg_lat rq of
                None \<Rightarrow> missing
              | Some lat \<Rightarrow>
                  (case arg_lon rq of
                     None \<Rightarrow> missing
                   | Some lon \<Rightarrow>
                       if lat = [] \<or> lon = [] then missing
                       else
                         (case cache_get (cache_key provider lat lon days) t_get c of
                            (Some (kv # data), c1) \<Rightarrow>
                              (Response 200 (dict_merge [(''source'', PStr ''cache'')] (kv # data)), c1, [])
                          | (_, c1) \<Rightarrow> weather_miss e cfg t_set provider lat lon days c1))))"

subsection \<open>Observations and reference definitions used by the properties\<close>

text \<open>The \<open>forecast\<close> list of a response body.\<close>

definition forecast_list :: "pydict \<Rightarrow> pyval list" where
  "forecast_list body = (case map_of body ''forecast'' of Some (PList fc) \<Rightarrow> fc | _ \<Rightarrow> [])"


text \<open>
  The selection rule of the commercial adapter as the specification words it: the first
  entry not flagged as night-time, else the first entry, else no day at all.
\<close>

definition night_flag :: "pydict \<Rightarrow> bool" where
  "night_flag en = truthy (dict_get en ''night'' (PBool False))"

definition spec_choose :: "pydict list \<Rightarrow> pydict option" where
  "spec_choose ens =
     (case find (\<lambda>en. \<not> night_flag en) ens of
        Some en \<Rightarrow> Some en
      | None \<Rightarrow> (case ens of [] \<Rightarrow> None | en # _ \<Rightarrow> Some en))"

definition spec_forecast_day :: "pydict \<Rightarrow> pydict" where
  "spec_forecast_day en =
     [(''summary'', py_or (dict_get en ''precis'' PNone) (PStr em_dash)),
      (''tempMin'', dict_get en ''min'' PNone),
      (''tempMax'', dict_get en ''max'' PNone)]"

text \<open>
  The entries of a day object, the days with entries that are all non-empty objects
  (\<open>entries\<close> is absent, null, or a list of non-empty objects), and the list of output
  days that the selection rule gives for a list of day objects.
\<close>

fun as_dict :: "pyval \<Rightarrow> pydict" where
  "as_dict (PDict d) = d"
| "as_dict v = []"

definition entries_of :: "pydict \<Rightarrow> pydict list" where
  "entries_of d = (case dict_get d ''entries'' PNone of PList xs \<Rightarrow> map as_dict xs | _ \<Rightarrow> [])"

fun is_entry :: "pyval \<Rightarrow> bool" where
  "is_entry (PDict (kv # d)) = True"
| "is_entry v = False"

definition wf_day :: "pydict \<Rightarrow> bool" where
  "wf_day d =
     (case dict_get d ''entries'' PNone of
        PList xs \<Rightarrow> list_all is_entry xs
      | PNone \<Rightarrow> True
      | _ \<Rightarrow> False)"

definition spec_days :: "pydict list \<Rightarrow> pydict list" where
  "spec_days ds =
     List.map_filter (\<lambda>d. map_option spec_forecast_day (spec_choose (entries_of d))) ds"

text \<open>The number of forecast entries an adapter returned (none when it raised).\<close>

definition forecast_count :: "py_exc + pydict \<Rightarrow> int" where
  "forecast_count r = (case r of Inl err \<Rightarrow> 0 | Inr body \<Rightarrow> int (length (forecast_list body)))"

text \<open>The test of line 239 fails: the cache gives nothing, or an empty dict.\<close>

definition cache_miss :: "string \<Rightarrow> real \<Rightarrow> cache \<Rightarrow> bool" where
  "cache_miss key now c = (case fst (cache_get key now c) of Some (kv # data) \<Rightarrow> False | _ \<Rightarrow> True)"

text \<open>
  The cache after the service has handled a list of requests one after the other, each
  with its own network behaviour and clock readings.
\<close>

fun serve_all :: "env \<Rightarrow> config \<Rightarrow> ((upstream_request \<Rightarrow> http_outcome) \<times> real \<times> real \<times> request) list \<Rightarrow> cache \<Rightarrow> cache" where
  "serve_all e cfg [] c = c"
| "serve_all e cfg ((nw, t_get, t_set, rq) # rest) c =
     serve_all e cfg rest (fst (snd (weather (e\<lparr>net := nw\<rparr>) cfg t_get t_set rq c)))"

text \<open>The HTTP status of what the handler returns, if it returns.\<close>

definition response_status :: "outcome \<Rightarrow> int option" where
  "response_status out = (case out of Raised err \<Rightarrow> None | Response st body \<Rightarrow> Some st)"

subsection \<open>Example inputs\<close>

text \<open>
  A reading of \<open>int(s)\<close> and \<open>float(s)\<close> for the concrete inputs below: plain ASCII
  decimal integers, on which it agrees with Python; every other string is rejected.
\<close>

fun parse_digits :: "string \<Rightarrow> nat \<Rightarrow> nat option" where
  "parse_digits [] acc = Some acc"
| "parse_digits (ch # cs) acc =
     (let n = (of_char ch :: nat)
      in if 48 \<le> n \<and> n \<le> 57 then parse_digits cs (10 * acc + (n - 48)) else None)"

definition plain_int :: "string \<Rightarrow> int option" where
  "plain_int s =
     (case s of
        [] \<Rightarrow> None
      | ch # cs \<Rightarrow>
          if ch = CHR ''-'' then (if cs = [] then None else map_option (\<lambda>n. - int n) (parse_digits cs 0))
          else map_option int (parse_digits s 0))"

definition plain_float :: "string \<Rightarrow> real option" where
  "plain_float s = map_option real_of_int (plain_int s)"

definition plain_env :: "(upstream_request \<Rightarrow> http_outcome) \<Rightarrow> env" where
  "plain_env nw = \<lparr>str_to_int = plain_int, str_to_float = plain_float, net = nw\<rparr>"

definition example_daily :: pydict where
  "example_daily =
     [(''time'', PList [PStr ''2024-01-01'', PStr ''2024-01-02'', PStr ''2024-01-03'']),
      (''temperature_2m_min'', PList (map PFloat [5])),
      (''temperature_2m_max'', PList (map PFloat [20, 21])),
      (''weathercode'', PList (map PInt [61, 999]))]"

definition example_meteo_env :: env where
  "example_meteo_env =
     plain_env (\<lambda>rq. HttpResponse 200 (Some (PDict [(''daily'', PDict example_daily)])))"

definition example_willy_days :: "pydict list" where
  "example_willy_days =
     [[(''entries'', PList [PDict [(''night'', PBool True)],
                            PDict [(''night'', PBool False), (''precis'', PStr ''Sunny''),
                                   (''min'', PInt 5), (''max'', PInt 20)]])],
      [(''entries'', PList [])],
      [(''entries'', PList [PDict [(''night'', PBool True)]])],
      [(''entries'', PList [PDict [(''night'', PBool True), (''precis'', PStr ''Clear'')]])]]"

definition example_willy_env :: env where
  "example_willy_env =
     plain_env (\<lambda>rq. HttpResponse 200 (Some (PDict
        [(''forecasts'', PDict [(''weather'', PDict [(''days'', PList (map PDict example_willy_days))])])])))"

definition example_config :: config where
  "example_config =
     \<lparr>WILLYWEATHER_API_KEY = ''k'', USE_MOCK = False, CACHE_TTL_SECONDS = 300,
      WEATHER_PROVIDER = ''open-meteo''\<rparr>"

text \<open>
  The default mock switch left on with Open-Meteo as the default provider; a request
  that names no provider; a network on which every request times out.
\<close>

definition mock_default_config :: config where
  "mock_default_config =
     \<lparr>WILLYWEATHER_API_KEY = [], USE_MOCK = True, CACHE_TTL_SECONDS = 300,
      WEATHER_PROVIDER = ''open-meteo''\<rparr>"

definition example_request :: request where
  "example_request =
     \<lparr>arg_lat = Some ''-37'', arg_lon = Some ''145'', arg_days = Some ''3'', arg_provider = None\<rparr>"

definition down_env :: env where
  "down_env = plain_env (\<lambda>rq. ConnTimeout)"

text \<open>A cache whose only entry, under the key of the example request, expired at time 100.\<close>

definition stale_cache :: cache where
  "stale_cache = [''weather:open-meteo:-37:145:3'' \<mapsto> (100, [(''days'', PInt 3)])]"

text \<open>
  A WillyWeather search that answers with a location object holding the given id, and a
  request that names the WillyWeather provider.
\<close>

definition location_env :: "pyval \<Rightarrow> env" where
  "location_env idv =
     plain_env (\<lambda>rq. HttpResponse 200 (Some (PDict [(''location'', PDict [(''id'', idv)])])))"

definition willy_request :: request where
  "willy_request =
     \<lparr>arg_lat = Some ''-37'', arg_lon = Some ''145'', arg_days = Some ''3'',
      arg_provider = Some ''willyweather''\<rparr>"

text \<open>
  A forecast answer with one day of three entries: a night entry, an empty object, a day
  entry.
\<close>

definition night_entry :: pydict where
  "night_entry =
     [(''night'', PBool True), (''precis'', PStr ''Night''), (''min'', PInt 1), (''max'', PInt 2)]"

definition sunny_entry :: pydict where
  "sunny_entry =
     [(''night'', PBool False), (''precis'', PStr ''Sunny''), (''min'', PInt 5), (''max'', PInt 20)]"

definition empty_entry_days :: "pydict list" where
  "empty_entry_days = [[(''entries'', PList [PDict night_entry, PDict [], PDict sunny_entry])]]"

definition empty_entry_env :: env where
  "empty_entry_env =
     plain_env (\<lambda>rq. HttpResponse 200 (Some (PDict
        [(''forecasts'', PDict [(''weather'', PDict [(''days'', PList (map PDict empty_entry_days))])])])))"

section \<open>Properties\<close>

subsection \<open>Normalisation\<close>

lemma enumerate_map_nth:
  "map (\<lambda>p. f (fst p) (snd p)) (enumerate 0 xs) = map (\<lambda>i. f i (xs ! i)) [0 ..< length xs]"
  by (rule nth_equalityI) (simp_all add: nth_enumerate_eq)

lemma normalize_forecast_nth:
  "normalize_forecast ds = [(''forecast'', PList (map (\<lambda>i. normalize_day i (ds ! i)) [0 ..< length ds]))]"
  by (simp add: normalize_forecast_def enumerate_map_nth)

lemma forecast_list_normalize:
  "forecast_list (normalize_forecast ds) = map (\<lambda>i. normalize_day i (ds ! i)) [0 ..< length ds]"
  by (simp add: normalize_forecast_nth forecast_list_def)

text \<open>
  Claim C9. For every list of provider day objects, the normalised forecast has one entry
  per day object; the entry at position \<open>i\<close> (counted from 0) has exactly the fields
  \<open>day\<close>, \<open>summary\<close>, \<open>tempMin\<close>, \<open>tempMax\<close>, in this order, its \<open>day\<close> is \<open>i + 1\<close>, the
  other three are read from the day object (with the dash and null defaults), and it has
  no \<open>date\<close> field, whatever the day object held.
\<close>

theorem normalize_forecast_day_fields:
  "length (forecast_list (normalize_forecast ds)) = length ds \<and>
   (\<forall>i < length ds. \<exists>ent.
      forecast_list (normalize_forecast ds) ! i = PDict ent \<and>
      map fst ent = [''day'', ''summary'', ''tempMin'', ''tempMax''] \<and>
      map_of ent ''day'' = Some (PInt (int i + 1)) \<and>
      map_of ent ''summary'' = Some (dict_get (ds ! i) ''summary'' (PStr em_dash)) \<and>
      map_of ent ''tempMin'' = Some (dict_get (ds ! i) ''tempMin'' PNone) \<and>
      map_of ent ''tempMax'' = Some (dict_get (ds ! i) ''tempMax'' PNone) \<and>
      map_of ent ''date'' = None)"
  by (simp add: forecast_list_normalize normalize_day_def)

text \<open>Two Open-Meteo style day objects, both carrying a \<open>date\<close>, the second without a summary.\<close>

theorem normalize_forecast_day_fields_witness:
  "forecast_list (normalize_forecast
      [[(''date'', PStr ''2024-01-01''), (''summary'', PStr ''Rain''), (''tempMin'', PFloat 5), (''tempMax'', PFloat 9)],
       [(''date'', PStr ''2024-01-02''), (''tempMax'', PFloat 11)]])
   = [PDict [(''day'', PInt 1), (''summary'', PStr ''Rain''), (''tempMin'', PFloat 5), (''tempMax'', PFloat 9)],
      PDict [(''day'', PInt 2), (''summary'', PStr em_dash), (''tempMin'', PNone), (''tempMax'', PFloat 11)]]"
  using normalize_forecast_day_fields [of "[[(''date'', PStr ''2024-01-01''), (''summary'', PStr ''Rain''), (''tempMin'', PFloat 5), (''tempMax'', PFloat 9)],
       [(''date'', PStr ''2024-01-02''), (''tempMax'', PFloat 11)]]"]
  by (simp add: forecast_list_normalize normalize_day_def dict_get_def upt_rec)

subsection \<open>Open-Meteo adapter\<close>













subsection \<open>WillyWeather adapter\<close>

lemma is_entry_as_dict: "is_entry x \<Longrightarrow> x = PDict (as_dict x) \<and> as_dict x \<noteq> []"
  by (cases x rule: is_entry.cases) simp_all

lemma find_day_entry_dicts:
  "find_day_entry (map PDict ens) = Inr (map_option PDict (find (\<lambda>en. \<not> night_flag en) ens))"
  by (induction ens) (simp_all add: night_flag_def)

lemma entries_as_dicts: "list_all is_entry xs \<Longrightarrow> xs = map PDict (map as_dict xs)"
  by (induction xs) (auto dest: is_entry_as_dict)

lemma entries_nonempty: "list_all is_entry xs \<Longrightarrow> [] \<notin> set (map as_dict xs)"
  by (induction xs) (auto dest: is_entry_as_dict)

lemma find_in_set: "find P xs = Some x \<Longrightarrow> x \<in> set xs"
  by (induction xs) (auto split: if_splits)

lemma py_or_list: "py_or (PList xs) (PList []) = PList xs"
  by (simp add: py_or_def)

lemma day_output_dict:
  "day_output (PDict en) = Inr (if en = [] then None else Some (spec_forecast_day en))"
  by (simp add: day_output_def spec_forecast_day_def)

lemma willy_day_list:
  assumes "dict_get d ''entries'' PNone = PList (map PDict ens)" and "[] \<notin> set ens"
  shows "willy_day (PDict d) = Inr (map_option spec_forecast_day (spec_choose ens))"
proof (cases "find (\<lambda>en. \<not> night_flag en) ens")
  case None
  show ?thesis
  proof (cases ens)
    case Nil
    with assms(1) show ?thesis
      by (simp add: willy_day_def py_or_list spec_choose_def day_output_def)
  next
    case (Cons en rest)
    with assms have ne: "en \<noteq> []" by auto
    have first: "py_getitem (PList (map PDict ens)) 0 = Inr (PDict en)"
      and nonempty: "truthy (PList (map PDict ens))"
      and choose: "spec_choose ens = Some en"
      using Cons None by (simp_all add: spec_choose_def)
    have "willy_day (PDict d) = day_output (PDict en)"
      using None assms(1) first nonempty truthy.simps(1)
      by (simp add: willy_day_def py_or_list find_day_entry_dicts
          del: find.simps find_day_entry.simps py_getitem.simps truthy.simps)
    with ne choose show ?thesis by (simp add: day_output_dict)
  qed
next
  case (Some en)
  then have "en \<in> set ens" by (rule find_in_set)
  with assms have ne: "en \<noteq> []" by auto
  have choose: "spec_choose ens = Some en"
    using Some by (simp add: spec_choose_def)
  have "willy_day (PDict d) = day_output (PDict en)"
    using Some assms(1) ne
    by (simp add: willy_day_def py_or_list find_day_entry_dicts
        del: find.simps find_day_entry.simps py_getitem.simps)
  with ne choose show ?thesis by (simp add: day_output_dict)
qed

lemma willy_day_wf:
  assumes "wf_day d"
  shows "willy_day (PDict d) = Inr (map_option spec_forecast_day (spec_choose (entries_of d)))"
proof (cases "dict_get d ''entries'' PNone")
  case (PList xs)
  with assms have all: "list_all is_entry xs" by (simp add: wf_day_def)
  have "dict_get d ''entries'' PNone = PList (map PDict (map as_dict xs))"
    using PList entries_as_dicts [OF all] by simp
  from willy_day_list [OF this entries_nonempty [OF all]] PList show ?thesis
    by (simp add: entries_of_def)
next
  case PNone
  then show ?thesis
    by (simp add: willy_day_def py_or_def entries_of_def spec_choose_def day_output_def)
qed (use assms in \<open>simp_all add: wf_day_def\<close>)

lemma willy_days_wf:
  "list_all wf_day ds \<Longrightarrow>
   willy_days (map PDict ds) =
     Inr (List.map_filter (\<lambda>d. map_option spec_forecast_day (spec_choose (entries_of d))) ds)"
  by (induction ds) (auto simp: willy_day_wf split: option.splits)

lemma py_or_dict: "py_or (PDict d) (PDict []) = PDict d"
  by (simp add: py_or_def)

lemma length_py_slice_to: "0 \<le> n \<Longrightarrow> length (py_slice_to xs n) \<le> nat n"
  by (simp add: py_slice_to_def)

lemma willyweather_normalize_wf:
  assumes "dict_get j ''forecasts'' PNone = PDict f"
    and "dict_get f ''weather'' PNone = PDict w"
    and "dict_get w ''days'' PNone = PList (map PDict ds)"
    and "list_all wf_day ds"
  shows "willyweather_normalize (PDict j) days =
           Inr (normalize_forecast (py_slice_to
                  (List.map_filter (\<lambda>d. map_option spec_forecast_day (spec_choose (entries_of d))) ds)
                  days))"
  using assms(1-3) willy_days_wf [OF assms(4)]
  by (simp add: willyweather_normalize_def py_or_dict py_or_list)

text \<open>
  Where no entry is an empty object the adapter follows the selection rule. When the API
  key is set and the forecast request is answered with a non-error status and a body whose
  \<open>forecasts.weather.days\<close> is a list of day objects, each with entries that are non-empty
  objects (or with no entries), the adapter returns the normalisation of: per day, the
  first entry not flagged as night-time, else the first entry, a day without entries being
  left out; the chosen entry's \<open>precis\<close> (the dash when it is empty), \<open>min\<close> and \<open>max\<close> as
  summary, tempMin and tempMax; the list cut by the slice \<open>[:days]\<close>, which for a
  non-negative \<open>days\<close> is its first \<open>days\<close> elements, so at most \<open>days\<close> of them.
\<close>

lemma willyweather_day_selection_nonempty:
  assumes "WILLYWEATHER_API_KEY cfg \<noteq> []"
    and "net e (WillyForecast (WILLYWEATHER_API_KEY cfg) location_id days) = HttpResponse st (Some (PDict j))"
    and "\<not> (400 \<le> st \<and> st < 600)"
    and "dict_get j ''forecasts'' PNone = PDict f"
    and "dict_get f ''weather'' PNone = PDict w"
    and "dict_get w ''days'' PNone = PList (map PDict ds)"
    and "list_all wf_day ds"
  shows "snd (willyweather_forecast_by_id e cfg location_id days) =
           Inr (normalize_forecast (py_slice_to (spec_days ds) days)) \<and>
         (0 \<le> days \<longrightarrow>
            snd (willyweather_forecast_by_id e cfg location_id days) =
              Inr (normalize_forecast (take (nat days) (spec_days ds))) \<and>
            forecast_count (snd (willyweather_forecast_by_id e cfg location_id days)) \<le> days)"
proof -
  have run: "snd (willyweather_forecast_by_id e cfg location_id days) =
               Inr (normalize_forecast (py_slice_to (spec_days ds) days))"
    using assms(1-3) willyweather_normalize_wf [OF assms(4-7)]
    by (simp add: willyweather_forecast_by_id_def http_get_json_def spec_days_def)
  have cut: "py_slice_to (spec_days ds) days = take (nat days) (spec_days ds)" if "0 \<le> days"
    using that by (simp add: py_slice_to_def)
  have count: "forecast_count (Inr (normalize_forecast (py_slice_to (spec_days ds) days))) \<le> days"
    if "0 \<le> days"
    using that length_py_slice_to [OF that, of "spec_days ds"]
    by (simp add: forecast_count_def forecast_list_normalize)
  from run cut count show ?thesis by simp
qed

text \<open>
  The two days of the specification's example (a night entry followed by a day entry; a
  single night entry), with a day without entries between them and a fourth day that the
  requested count of two cuts off.
\<close>

lemma willyweather_day_selection_example:
  "snd (willyweather_forecast_by_id example_willy_env example_config 42 2) =
     Inr [(''forecast'', PList
        [PDict [(''day'', PInt 1), (''summary'', PStr ''Sunny''), (''tempMin'', PInt 5), (''tempMax'', PInt 20)],
         PDict [(''day'', PInt 2), (''summary'', PStr em_dash), (''tempMin'', PNone), (''tempMax'', PNone)]])]"
proof -
  have h1: "WILLYWEATHER_API_KEY example_config \<noteq> []"
    by (simp add: example_config_def)
  have h2: "net example_willy_env (WillyForecast (WILLYWEATHER_API_KEY example_config) 42 2) =
              HttpResponse 200 (Some (PDict
                [(''forecasts'', PDict [(''weather'', PDict [(''days'', PList (map PDict example_willy_days))])])]))"
    by (simp add: example_willy_env_def plain_env_def)
  have h3: "\<not> (400 \<le> (200::int) \<and> (200::int) < 600)" by simp
  have h4: "dict_get [(''forecasts'', PDict [(''weather'', PDict [(''days'', PList (map PDict example_willy_days))])])]
              ''forecasts'' PNone = PDict [(''weather'', PDict [(''days'', PList (map PDict example_willy_days))])]"
    by (simp add: dict_get_def)
  have h5: "dict_get [(''weather'', PDict [(''days'', PList (map PDict example_willy_days))])] ''weather'' PNone
              = PDict [(''days'', PList (map PDict example_willy_days))]"
    by (simp add: dict_get_def)
  have h6: "dict_get [(''days'', PList (map PDict example_willy_days))] ''days'' PNone
              = PList (map PDict example_willy_days)"
    by (simp add: dict_get_def)
  have h7: "list_all wf_day example_willy_days"
    by (simp add: example_willy_days_def wf_day_def dict_get_def)
  have sel: "List.map_filter (\<lambda>d. map_option spec_forecast_day (spec_choose (entries_of d))) example_willy_days
             = [[(''summary'', PStr ''Sunny''), (''tempMin'', PInt 5), (''tempMax'', PInt 20)],
                [(''summary'', PStr em_dash), (''tempMin'', PNone), (''tempMax'', PNone)],
                [(''summary'', PStr ''Clear''), (''tempMin'', PNone), (''tempMax'', PNone)]]"
    by (simp add: example_willy_days_def List.map_filter_def entries_of_def dict_get_def
        spec_choose_def night_flag_def spec_forecast_day_def py_or_def)
  from willyweather_day_selection_nonempty [OF h1 h2 h3 h4 h5 h6 h7] show ?thesis
    by (simp add: sel spec_days_def py_slice_to_def normalize_forecast_def normalize_day_def
        dict_get_def enumerate_eq_zip upt_rec)
qed

text \<open>
  Claim C7 at its failing input: a day whose entries hold an empty object,
  \<open>[{night: true, precis: "Night", min: 1, max: 2}, {}, {night: false, precis: "Sunny",
  min: 5, max: 20}]\<close>. The loop of lines 200 to 203 stops at the empty object, which has no
  night flag; the test \<open>not chosen\<close> of line 204 holds of an empty object, so the first
  entry replaces it, and the day is reported from the entry flagged as night-time although
  an entry flagged as not night-time is there. The adapter's answer is not the one the
  selection rule gives.
\<close>

theorem empty_entry_selects_night_entry:
  "snd (willyweather_forecast_by_id empty_entry_env example_config 42 7) =
     Inr [(''forecast'', PList
        [PDict [(''day'', PInt 1), (''summary'', PStr ''Night''),
                (''tempMin'', PInt 1), (''tempMax'', PInt 2)]])] \<and>
   entries_of (hd empty_entry_days) = [night_entry, [], sunny_entry] \<and>
   night_flag night_entry \<and> \<not> night_flag [] \<and> \<not> night_flag sunny_entry \<and>
   spec_forecast_day sunny_entry =
     [(''summary'', PStr ''Sunny''), (''tempMin'', PInt 5), (''tempMax'', PInt 20)] \<and>
   snd (willyweather_forecast_by_id empty_entry_env example_config 42 7) \<noteq>
     Inr (normalize_forecast (py_slice_to (spec_days empty_entry_days) 7))"
proof -
  have run: "snd (willyweather_forecast_by_id empty_entry_env example_config 42 7) =
     Inr [(''forecast'', PList
        [PDict [(''day'', PInt 1), (''summary'', PStr ''Night''),
                (''tempMin'', PInt 1), (''tempMax'', PInt 2)]])]"
    by (simp add: willyweather_forecast_by_id_def example_config_def empty_entry_env_def plain_env_def
        http_get_json_def willyweather_normalize_def py_or_def dict_get_def empty_entry_days_def
        willy_day_def day_output_def night_entry_def sunny_entry_def py_slice_to_def
        normalize_forecast_def normalize_day_def enumerate_eq_zip upt_rec)
  have ens: "entries_of (hd empty_entry_days) = [night_entry, [], sunny_entry]"
    by (simp add: empty_entry_days_def entries_of_def dict_get_def)
  have flags: "night_flag night_entry" "\<not> night_flag []" "\<not> night_flag sunny_entry"
    by (simp_all add: night_flag_def night_entry_def sunny_entry_def dict_get_def)
  have sunny: "spec_forecast_day sunny_entry =
     [(''summary'', PStr ''Sunny''), (''tempMin'', PInt 5), (''tempMax'', PInt 20)]"
    by (simp add: spec_forecast_day_def sunny_entry_def dict_get_def py_or_def)
  have claimed: "normalize_forecast (py_slice_to (spec_days empty_entry_days) 7)
          = [(''forecast'', PList
        [PDict [(''day'', PInt 1), (''summary'', PStr em_dash), (''tempMin'', PNone), (''tempMax'', PNone)]])]"
    by (simp add: spec_days_def empty_entry_days_def List.map_filter_def entries_of_def dict_get_def
        spec_choose_def night_flag_def spec_forecast_day_def py_or_def night_entry_def sunny_entry_def
        py_slice_to_def normalize_forecast_def normalize_day_def enumerate_eq_zip upt_rec)
  have differ: "snd (willyweather_forecast_by_id empty_entry_env example_config 42 7) \<noteq>
     Inr (normalize_forecast (py_slice_to (spec_days empty_entry_days) 7))"
    unfolding run claimed by simp
  from run ens flags sunny differ show ?thesis by blast
qed

subsection \<open>The request handler\<close>

lemma weather_unfold:
  assumes "arg_lat rq = Some lat" and "lat \<noteq> []" and "arg_lon rq = Some lon" and "lon \<noteq> []"
    and "str_to_int e (case arg_days rq of None \<Rightarrow> ''7'' | Some s \<Rightarrow> s) = Some d"
  shows "weather e cfg t_get t_set rq c =
           (case cache_get (cache_key (resolve_provider cfg rq) lat lon d) t_get c of
              (Some (kv # data), c1) \<Rightarrow>
                (Response 200 (dict_merge [(''source'', PStr ''cache'')] (kv # data)), c1, [])
            | (_, c1) \<Rightarrow> weather_miss e cfg t_set (resolve_provider cfg rq) lat lon d c1)"
  using assms by (simp add: weather_def Let_def)

lemma weather_on_miss:
  assumes "arg_lat rq = Some lat" and "lat \<noteq> []" and "arg_lon rq = Some lon" and "lon \<noteq> []"
    and "str_to_int e (case arg_days rq of None \<Rightarrow> ''7'' | Some s \<Rightarrow> s) = Some d"
    and "cache_miss (cache_key (resolve_provider cfg rq) lat lon d) t_get c"
  shows "weather e cfg t_get t_set rq c =
           weather_miss e cfg t_set (resolve_provider cfg rq) lat lon d
             (snd (cache_get (cache_key (resolve_provider cfg rq) lat lon d) t_get c))"
  using assms(6) unfolding weather_unfold [OF assms(1-5)] cache_miss_def
  by (auto split: prod.splits option.splits list.splits)

lemma weather_on_hit:
  assumes "arg_lat rq = Some lat" and "lat \<noteq> []" and "arg_lon rq = Some lon" and "lon \<noteq> []"
    and "str_to_int e (case arg_days rq of None \<Rightarrow> ''7'' | Some s \<Rightarrow> s) = Some d"
    and "c (cache_key (resolve_provider cfg rq) lat lon d) = Some (expiry, data)"
    and "\<not> expiry < t_get" and "data \<noteq> []"
  shows "weather e cfg t_get t_set rq c =
           (Response 200 (dict_merge [(''source'', PStr ''cache'')] data), c, [])"
  using assms(6-8) unfolding weather_unfold [OF assms(1-5)]
  by (cases data) (simp_all add: cache_get_def)

lemma forecast_list_mock_data: "forecast_list (mock_data la lo d) = mock_forecast d"
  by (simp add: forecast_list_def mock_data_def)

lemma weather_miss_mock:
  assumes "mock_selected cfg p" and "str_to_float e lat = Some la" and "str_to_float e lon = Some lo"
  shows "weather_miss e cfg t_set p lat lon d c =
           (Response 200 (mock_data la lo d),
            cache_set (cache_key p lat lon d) (mock_data la lo d) (CACHE_TTL_SECONDS cfg) t_set c, [])"
  using assms by (simp add: weather_miss_def Let_def)

text \<open>
  Claim C3. A request with lat and lon present and parseable, a days parameter that is a
  positive integer \<open>d\<close>, no cached answer, and the mock branch selected, is answered with
  status 200 and a forecast of exactly \<open>d\<close> entries; entry \<open>i\<close> (from 0) has day \<open>i + 1\<close>,
  the summary "Partly cloudy", and integer temperatures with tempMin below tempMax.
\<close>

theorem mock_forecast_shape:
  assumes "arg_lat rq = Some lat" and "lat \<noteq> []" and "arg_lon rq = Some lon" and "lon \<noteq> []"
    and "str_to_int e (case arg_days rq of None \<Rightarrow> ''7'' | Some s \<Rightarrow> s) = Some d"
    and "cache_miss (cache_key (resolve_provider cfg rq) lat lon d) t_get c"
    and "mock_selected cfg (resolve_provider cfg rq)"
    and "str_to_float e lat = Some la" and "str_to_float e lon = Some lo"
    and "0 < d"
  shows "\<exists>body c'. weather e cfg t_get t_set rq c = (Response 200 body, c', []) \<and>
           length (forecast_list body) = nat d \<and>
           (\<forall>i < nat d. \<exists>mn mx.
              forecast_list body ! i =
                PDict [(''day'', PInt (int i + 1)), (''summary'', PStr ''Partly cloudy''),
                       (''tempMin'', PInt mn), (''tempMax'', PInt mx)] \<and> mn < mx)"
proof -
  have run: "weather e cfg t_get t_set rq c =
           (Response 200 (mock_data la lo d),
            cache_set (cache_key (resolve_provider cfg rq) lat lon d) (mock_data la lo d)
              (CACHE_TTL_SECONDS cfg) t_set
              (snd (cache_get (cache_key (resolve_provider cfg rq) lat lon d) t_get c)), [])"
    unfolding weather_on_miss [OF assms(1-6)] by (rule weather_miss_mock [OF assms(7-9)])
  have len: "length (forecast_list (mock_data la lo d)) = nat d"
    by (simp add: forecast_list_mock_data mock_forecast_def)
  have rows: "\<forall>i < nat d. \<exists>mn mx.
              forecast_list (mock_data la lo d) ! i =
                PDict [(''day'', PInt (int i + 1)), (''summary'', PStr ''Partly cloudy''),
                       (''tempMin'', PInt mn), (''tempMax'', PInt mx)] \<and> mn < mx"
    by (simp add: forecast_list_mock_data mock_forecast_def)
  from run len rows show ?thesis by blast
qed

lemma bind_exc_Inr_iff: "bind_exc x f = Inr y \<longleftrightarrow> (\<exists>v. x = Inr v \<and> f v = Inr y)"
  by (cases x) auto

lemma open_meteo_forecast_shape:
  "open_meteo_forecast e la lo d = Inr n \<Longrightarrow> \<exists>fc. n = [(''forecast'', fc)]"
  by (auto simp: open_meteo_forecast_def open_meteo_normalize_def bind_exc_Inr_iff
      normalize_forecast_def)

lemma willyweather_forecast_shape:
  "willyweather_forecast_by_id e cfg loc d = (calls, Inr n) \<Longrightarrow> \<exists>fc. n = [(''forecast'', fc)]"
  by (auto simp: willyweather_forecast_by_id_def willyweather_normalize_def bind_exc_Inr_iff
      normalize_forecast_def Let_def split: if_splits)

lemma dict_merge_forecast:
  "dict_merge [(''location'', loc), (''days'', dv)] [(''forecast'', fc)] =
     [(''location'', loc), (''days'', dv), (''forecast'', fc)]"
  by (simp add: dict_merge_def)

lemma dispatch_shape:
  assumes "dispatch e cfg p la lo d key ts c = (calls, Inr (st, body, c'))"
  shows "(st = 200 \<and> (\<exists>loc fc. body = [(''location'', loc), (''days'', PInt d), (''forecast'', fc)]) \<and>
          c' = cache_set key body (CACHE_TTL_SECONDS cfg) ts c) \<or>
         (st \<noteq> 200 \<and> (\<exists>m. body = [(''error'', m)]) \<and> c' = c)"
proof (cases "p = ''open-meteo''")
  case True
  with assms show ?thesis
    by (auto simp: dispatch_def bind_exc_Inr_iff Let_def dict_merge_forecast
        dest!: open_meteo_forecast_shape)
next
  case False
  note nm = this
  show ?thesis
  proof (cases "p = ''willyweather''")
    case True
    with assms nm show ?thesis
      by (auto simp: dispatch_def bind_exc_Inr_iff Let_def dict_merge_forecast
          split: prod.splits sum.splits option.splits if_splits
          dest!: willyweather_forecast_shape)
  next
    case False
    with assms nm show ?thesis
      by (auto simp: dispatch_def)
  qed
qed

lemma handle_exc_shape:
  "fst (handle_exc err) \<noteq> 200 \<and> map_of (snd (handle_exc err)) ''source'' = None \<and>
   map_of (snd (handle_exc err)) ''mock'' = None"
  by (cases err) simp_all

lemma weather_miss_cases:
  assumes "weather_miss e cfg ts p lat lon d c = (out, c', calls)"
  shows "(\<exists>err. out = Raised err \<and> c' = c) \<or>
         (\<exists>st body. out = Response st body \<and> st \<noteq> 200 \<and> c' = c \<and>
            map_of body ''source'' = None \<and> map_of body ''mock'' = None) \<or>
         (\<exists>body loc fc. out = Response 200 body \<and>
            c' = cache_set (cache_key p lat lon d) body (CACHE_TTL_SECONDS cfg) ts c \<and>
            (body = [(''location'', loc), (''days'', PInt d), (''mock'', PBool True), (''forecast'', fc)]
               \<and> mock_selected cfg p \<and> calls = [] \<or>
             body = [(''location'', loc), (''days'', PInt d), (''forecast'', fc)]
               \<and> \<not> mock_selected cfg p))"
proof (cases "mock_selected cfg p")
  case True
  with assms show ?thesis
    by (auto simp: weather_miss_def Let_def mock_data_def split: option.splits)
next
  case False
  show ?thesis
  proof (cases "str_to_float e lat")
    case None
    with assms False show ?thesis by (auto simp: weather_miss_def Let_def)
  next
    case (Some la)
    note la = this
    show ?thesis
    proof (cases "str_to_float e lon")
      case None
      with assms False la show ?thesis by (auto simp: weather_miss_def Let_def)
    next
      case (Some lo)
      obtain calls0 r where disp:
        "dispatch e cfg p la lo d (cache_key p lat lon d) ts c = (calls0, r)"
        by (cases "dispatch e cfg p la lo d (cache_key p lat lon d) ts c")
      show ?thesis
      proof (cases r)
        case (Inl err)
        with assms False la Some disp handle_exc_shape [of err] show ?thesis
          by (auto simp: weather_miss_def Let_def)
      next
        case (Inr res)
        obtain st body c2 where res: "res = (st, body, c2)" by (cases res)
        from dispatch_shape [OF disp [unfolded Inr res]] assms False la Some disp Inr res
        show ?thesis
          by (auto simp: weather_miss_def Let_def)
      qed
    qed
  qed
qed

lemma dict_merge_source_mock:
  "dict_merge [(''source'', x)] [(''location'', loc), (''days'', dv), (''mock'', m), (''forecast'', fc)]
     = [(''source'', x), (''location'', loc), (''days'', dv), (''mock'', m), (''forecast'', fc)]"
  by (simp add: dict_merge_def)

lemma dict_merge_source_plain:
  "dict_merge [(''source'', x)] [(''location'', loc), (''days'', dv), (''forecast'', fc)]
     = [(''source'', x), (''location'', loc), (''days'', dv), (''forecast'', fc)]"
  by (simp add: dict_merge_def)

lemma cache_get_other: "k \<noteq> key \<Longrightarrow> snd (cache_get key now c) k = c k"
  by (simp add: cache_get_def split: option.splits)

lemma weather_miss_other:
  assumes "k \<noteq> cache_key p lat lon d"
  shows "fst (snd (weather_miss e cfg ts p lat lon d c)) k = c k"
proof -
  obtain out c' calls where r: "weather_miss e cfg ts p lat lon d c = (out, c', calls)"
    by (cases "weather_miss e cfg ts p lat lon d c")
  from weather_miss_cases [OF r] assms have "c' k = c k"
    by (auto simp: cache_set_def)
  with r show ?thesis by simp
qed

lemma weather_keeps_live:
  assumes "c k = Some (expiry, data)" and "\<not> expiry < t_get" and "data \<noteq> []"
  shows "fst (snd (weather e cfg t_get t_set rq c)) k = Some (expiry, data)"
proof (cases "str_to_int e (case arg_days rq of None \<Rightarrow> ''7'' | Some s \<Rightarrow> s)")
  case None
  with assms show ?thesis by (simp add: weather_def)
next
  case (Some d)
  show ?thesis
  proof (cases "\<exists>lat lon. arg_lat rq = Some lat \<and> lat \<noteq> [] \<and> arg_lon rq = Some lon \<and> lon \<noteq> []")
    case False
    with assms Some show ?thesis
      by (auto simp: weather_def Let_def split: option.splits)
  next
    case True
    then obtain lat lon where a: "arg_lat rq = Some lat" "lat \<noteq> []" "arg_lon rq = Some lon" "lon \<noteq> []"
      by blast
    show ?thesis
    proof (cases "k = cache_key (resolve_provider cfg rq) lat lon d")
      case True
      with assms weather_on_hit [OF a Some, where cfg = cfg and c = c and expiry = expiry
            and data = data and t_get = t_get and t_set = t_set] show ?thesis
        by simp
    next
      case False
      have "fst (snd (weather e cfg t_get t_set rq c)) k
            = snd (cache_get (cache_key (resolve_provider cfg rq) lat lon d) t_get c) k"
        unfolding weather_unfold [OF a Some]
        by (auto split: prod.splits option.splits list.splits simp: weather_miss_other [OF False])
      with False assms(1) show ?thesis by (simp add: cache_get_other)
    qed
  qed
qed

lemma serve_all_keeps_live:
  "c k = Some (expiry, data) \<Longrightarrow> data \<noteq> [] \<Longrightarrow>
   list_all (\<lambda>x. fst (snd x) \<le> expiry) rs \<Longrightarrow>
   serve_all e cfg rs c k = Some (expiry, data)"
proof (induction rs arbitrary: c)
  case Nil
  then show ?case by simp
next
  case (Cons x rs)
  obtain nw tg ts rq where x: "x = (nw, tg, ts, rq)" by (cases x)
  let ?c = "fst (snd (weather (e\<lparr>net := nw\<rparr>) cfg tg ts rq c))"
  from Cons.prems(3) x have "\<not> expiry < tg" by simp
  from weather_keeps_live [where c = c and k = k, OF Cons.prems(1) this Cons.prems(2)]
  have live: "?c k = Some (expiry, data)" .
  from Cons.prems(3) have rest: "list_all (\<lambda>x. fst (snd x) \<le> expiry) rs" by simp
  have "serve_all e cfg rs ?c k = Some (expiry, data)"
    using live Cons.prems(2) rest by (rule Cons.IH)
  with x show ?case by simp
qed

lemma resolve_example: "resolve_provider mock_default_config example_request = ''open-meteo''"
  by (simp add: resolve_provider_def mock_default_config_def example_request_def py_strip_def
      py_lower_def is_space_def)

lemma plain_int_3: "plain_int ''3'' = Some 3"
  by (simp add: plain_int_def)

lemma plain_float_lat: "plain_float ''-37'' = Some (-37)"
  by (simp add: plain_float_def plain_int_def)

lemma plain_float_lon: "plain_float ''145'' = Some 145"
  by (simp add: plain_float_def plain_int_def)

text \<open>Three days at (-37, 145): temperatures 10/18, 11/19, 12/20.\<close>

theorem mock_forecast_shape_witness:
  "\<exists>body c'. weather down_env mock_default_config 0 0 example_request Map.empty
                = (Response 200 body, c', []) \<and>
       forecast_list body =
         [PDict [(''day'', PInt 1), (''summary'', PStr ''Partly cloudy''), (''tempMin'', PInt 10), (''tempMax'', PInt 18)],
          PDict [(''day'', PInt 2), (''summary'', PStr ''Partly cloudy''), (''tempMin'', PInt 11), (''tempMax'', PInt 19)],
          PDict [(''day'', PInt 3), (''summary'', PStr ''Partly cloudy''), (''tempMin'', PInt 12), (''tempMax'', PInt 20)]]"
proof -
  have h1: "arg_lat example_request = Some ''-37''" and h2: "''-37'' \<noteq> []"
    and h3: "arg_lon example_request = Some ''145''" and h4: "''145'' \<noteq> []"
    by (simp_all add: example_request_def)
  have h5: "str_to_int down_env (case arg_days example_request of None \<Rightarrow> ''7'' | Some s \<Rightarrow> s) = Some 3"
    by (simp add: example_request_def down_env_def plain_env_def plain_int_3)
  have h6: "cache_miss (cache_key (resolve_provider mock_default_config example_request) ''-37'' ''145'' 3)
              0 Map.empty"
    by (simp add: cache_miss_def cache_get_def)
  have h7: "mock_selected mock_default_config (resolve_provider mock_default_config example_request)"
    unfolding mock_selected_def resolve_example by (simp add: mock_default_config_def)
  have h8: "str_to_float down_env ''-37'' = Some (-37)" and h9: "str_to_float down_env ''145'' = Some 145"
    by (simp_all add: down_env_def plain_env_def plain_float_lat plain_float_lon)
  have h10: "(0::int) < 3" by simp
  from mock_forecast_shape [OF h1 h2 h3 h4 h5 h6 h7 h8 h9 h10, of 0]
  obtain body c' where run: "weather down_env mock_default_config 0 0 example_request Map.empty
                = (Response 200 body, c', [])" by blast
  have "weather down_env mock_default_config 0 0 example_request Map.empty
          = weather_miss down_env mock_default_config 0
              (resolve_provider mock_default_config example_request) ''-37'' ''145'' 3 Map.empty"
    using weather_on_miss [OF h1 h2 h3 h4 h5 h6, of 0] by (simp add: cache_get_def)
  with run weather_miss_mock [OF h7 h8 h9, of 0 3 Map.empty]
  have "body = mock_data (-37) 145 3" by simp
  then have "forecast_list body =
         [PDict [(''day'', PInt 1), (''summary'', PStr ''Partly cloudy''), (''tempMin'', PInt 10), (''tempMax'', PInt 18)],
          PDict [(''day'', PInt 2), (''summary'', PStr ''Partly cloudy''), (''tempMin'', PInt 11), (''tempMax'', PInt 19)],
          PDict [(''day'', PInt 3), (''summary'', PStr ''Partly cloudy''), (''tempMin'', PInt 12), (''tempMax'', PInt 20)]]"
    by (simp add: forecast_list_mock_data mock_forecast_def upt_rec)
  with run show ?thesis by blast
qed

text \<open>
  Claim C2, as amended. For a request with lat and lon present and parseable, an integer
  days parameter and no cached answer, the handler takes the mock branch (it returns the
  locally synthesised forecast with status 200, stores it in the cache under the
  request's key, and sends no upstream request) exactly when the resolved provider is
  \<open>mock\<close>, or it is the configured default provider and the \<open>USE_MOCK\<close> switch is on.
\<close>

theorem mock_branch_condition:
  assumes "arg_lat rq = Some lat" and "lat \<noteq> []" and "arg_lon rq = Some lon" and "lon \<noteq> []"
    and "str_to_int e (case arg_days rq of None \<Rightarrow> ''7'' | Some s \<Rightarrow> s) = Some d"
    and "cache_miss (cache_key (resolve_provider cfg rq) lat lon d) t_get c"
    and "str_to_float e lat = Some la" and "str_to_float e lon = Some lo"
  shows "(weather e cfg t_get t_set rq c =
            (Response 200 (mock_data la lo d),
             cache_set (cache_key (resolve_provider cfg rq) lat lon d) (mock_data la lo d)
               (CACHE_TTL_SECONDS cfg) t_set
               (snd (cache_get (cache_key (resolve_provider cfg rq) lat lon d) t_get c)),
             []))
         \<longleftrightarrow>
         (resolve_provider cfg rq = ''mock'' \<or>
          (resolve_provider cfg rq = WEATHER_PROVIDER cfg \<and> USE_MOCK cfg))"
proof
  assume run: "weather e cfg t_get t_set rq c =
            (Response 200 (mock_data la lo d),
             cache_set (cache_key (resolve_provider cfg rq) lat lon d) (mock_data la lo d)
               (CACHE_TTL_SECONDS cfg) t_set
               (snd (cache_get (cache_key (resolve_provider cfg rq) lat lon d) t_get c)),
             [])"
  have "mock_selected cfg (resolve_provider cfg rq)"
  proof (rule ccontr)
    assume no: "\<not> mock_selected cfg (resolve_provider cfg rq)"
    from run [unfolded weather_on_miss [OF assms(1-6)]]
    have "\<not> mock_selected cfg (resolve_provider cfg rq) \<Longrightarrow> False"
      by (auto dest!: weather_miss_cases simp: mock_data_def)
    with no show False by blast
  qed
  then show "resolve_provider cfg rq = ''mock'' \<or>
          (resolve_provider cfg rq = WEATHER_PROVIDER cfg \<and> USE_MOCK cfg)"
    by (simp add: mock_selected_def)
next
  assume "resolve_provider cfg rq = ''mock'' \<or>
          (resolve_provider cfg rq = WEATHER_PROVIDER cfg \<and> USE_MOCK cfg)"
  then have sel: "mock_selected cfg (resolve_provider cfg rq)"
    by (simp add: mock_selected_def)
  show "weather e cfg t_get t_set rq c =
            (Response 200 (mock_data la lo d),
             cache_set (cache_key (resolve_provider cfg rq) lat lon d) (mock_data la lo d)
               (CACHE_TTL_SECONDS cfg) t_set
               (snd (cache_get (cache_key (resolve_provider cfg rq) lat lon d) t_get c)),
             [])"
    unfolding weather_on_miss [OF assms(1-6)] by (rule weather_miss_mock [OF sel assms(7,8)])
qed

text \<open>
  Claim C2 as stated fails: with \<open>USE_MOCK\<close> on and the default provider \<open>open-meteo\<close>, a
  request that names no provider resolves to \<open>open-meteo\<close>, not to \<open>mock\<close> (mock is
  neither requested nor the default provider), and is still served by the mock branch,
  with no upstream request.
\<close>

theorem mock_branch_counterexample:
  "\<not> (weather down_env mock_default_config 0 0 example_request Map.empty =
          (Response 200 (mock_data (-37) 145 3),
           cache_set (cache_key ''open-meteo'' ''-37'' ''145'' 3) (mock_data (-37) 145 3) 300 0 Map.empty,
           [])
        \<longleftrightarrow> (resolve_provider mock_default_config example_request = ''mock'' \<or>
             arg_provider example_request = Some ''mock'' \<or>
             WEATHER_PROVIDER mock_default_config = ''mock''))"
proof -
  have h1: "arg_lat example_request = Some ''-37''" and h2: "''-37'' \<noteq> []"
    and h3: "arg_lon example_request = Some ''145''" and h4: "''145'' \<noteq> []"
    by (simp_all add: example_request_def)
  have h5: "str_to_int down_env (case arg_days example_request of None \<Rightarrow> ''7'' | Some s \<Rightarrow> s) = Some 3"
    by (simp add: example_request_def down_env_def plain_env_def plain_int_3)
  have h6: "cache_miss (cache_key (resolve_provider mock_default_config example_request) ''-37'' ''145'' 3)
              0 Map.empty"
    by (simp add: cache_miss_def cache_get_def)
  have h7: "mock_selected mock_default_config (resolve_provider mock_default_config example_request)"
    unfolding mock_selected_def resolve_example by (simp add: mock_default_config_def)
  have h8: "str_to_float down_env ''-37'' = Some (-37)" and h9: "str_to_float down_env ''145'' = Some 145"
    by (simp_all add: down_env_def plain_env_def plain_float_lat plain_float_lon)
  have "weather down_env mock_default_config 0 0 example_request Map.empty
          = weather_miss down_env mock_default_config 0
              (resolve_provider mock_default_config example_request) ''-37'' ''145'' 3 Map.empty"
    using weather_on_miss [OF h1 h2 h3 h4 h5 h6, of 0] by (simp add: cache_get_def)
  also have "\<dots> = (Response 200 (mock_data (-37) 145 3),
           cache_set (cache_key ''open-meteo'' ''-37'' ''145'' 3) (mock_data (-37) 145 3) 300 0 Map.empty,
           [])"
    using weather_miss_mock [OF h7 h8 h9, of 0 3 Map.empty]
    by (simp add: resolve_example) (simp add: mock_default_config_def)
  finally have taken: "weather down_env mock_default_config 0 0 example_request Map.empty =
          (Response 200 (mock_data (-37) 145 3),
           cache_set (cache_key ''open-meteo'' ''-37'' ''145'' 3) (mock_data (-37) 145 3) 300 0 Map.empty,
           [])" .
  have "resolve_provider mock_default_config example_request \<noteq> ''mock''"
    by (simp add: resolve_example)
  moreover have "arg_provider example_request \<noteq> Some ''mock''"
    by (simp add: example_request_def)
  moreover have "WEATHER_PROVIDER mock_default_config \<noteq> ''mock''"
    by (simp add: mock_default_config_def)
  ultimately show ?thesis using taken by simp
qed

text \<open>The amended claim at the same request.\<close>

theorem mock_branch_condition_witness:
  "weather down_env mock_default_config 0 0 example_request Map.empty =
          (Response 200 (mock_data (-37) 145 3),
           cache_set (cache_key ''open-meteo'' ''-37'' ''145'' 3) (mock_data (-37) 145 3) 300 0 Map.empty,
           [])"
proof -
  have h1: "arg_lat example_request = Some ''-37''" and h2: "''-37'' \<noteq> []"
    and h3: "arg_lon example_request = Some ''145''" and h4: "''145'' \<noteq> []"
    by (simp_all add: example_request_def)
  have h5: "str_to_int down_env (case arg_days example_request of None \<Rightarrow> ''7'' | Some s \<Rightarrow> s) = Some 3"
    by (simp add: example_request_def down_env_def plain_env_def plain_int_3)
  have h6: "cache_miss (cache_key (resolve_provider mock_default_config example_request) ''-37'' ''145'' 3)
              0 Map.empty"
    by (simp add: cache_miss_def cache_get_def)
  have h8: "str_to_float down_env ''-37'' = Some (-37)" and h9: "str_to_float down_env ''145'' = Some 145"
    by (simp_all add: down_env_def plain_env_def plain_float_lat plain_float_lon)
  have sel: "resolve_provider mock_default_config example_request = ''mock'' \<or>
          (resolve_provider mock_default_config example_request = WEATHER_PROVIDER mock_default_config
           \<and> USE_MOCK mock_default_config)"
    unfolding resolve_example by (simp add: mock_default_config_def)
  from mock_branch_condition [OF h1 h2 h3 h4 h5 h6 h8 h9, of 0] sel
  have "weather down_env mock_default_config 0 0 example_request Map.empty =
            (Response 200 (mock_data (-37) 145 3),
             cache_set (cache_key (resolve_provider mock_default_config example_request) ''-37'' ''145'' 3)
               (mock_data (-37) 145 3) (CACHE_TTL_SECONDS mock_default_config) 0
               (snd (cache_get (cache_key (resolve_provider mock_default_config example_request)
                       ''-37'' ''145'' 3) 0 Map.empty)),
             [])" by blast
  then show ?thesis
    by (simp add: resolve_example cache_get_def) (simp add: mock_default_config_def)
qed

lemma weather_miss_no_source:
  "weather_miss e cfg ts p lat lon d c = (Response st body, c', calls) \<Longrightarrow>
   map_of body ''source'' = None"
  by (auto dest!: weather_miss_cases)

lemma weather_miss_open_meteo_calls:
  assumes "\<not> mock_selected cfg ''open-meteo''"
    and "str_to_float e lat = Some la" and "str_to_float e lon = Some lo"
  shows "snd (snd (weather_miss e cfg ts ''open-meteo'' lat lon d c)) = [OpenMeteoGet la lo d]"
  using assms
  by (simp add: weather_miss_def Let_def dispatch_def split: prod.splits sum.splits)

lemma weather_miss_willy_calls:
  assumes "\<not> mock_selected cfg ''willyweather''"
    and "str_to_float e lat = Some la" and "str_to_float e lon = Some lo"
    and "WILLYWEATHER_API_KEY cfg \<noteq> []"
  shows "\<exists>rest. snd (snd (weather_miss e cfg ts ''willyweather'' lat lon d c))
           = WillySearch (WILLYWEATHER_API_KEY cfg) la lo # rest"
  using assms
  by (auto simp: weather_miss_def Let_def dispatch_def willyweather_find_location_id_def
      split: prod.splits sum.splits option.splits)

text \<open>
  Claim C5. When the entry stored under a key has an expiry before the clock reading,
  \<open>cache_get\<close> returns \<open>None\<close> and deletes the entry. A request with that key (lat and lon
  present, integer days) is then handled exactly as a cache miss on the cache without the
  entry: no response it gives carries a \<open>source\<close> field, and for the upstream providers
  with parseable coordinates it sends the upstream request again (the Open-Meteo request,
  or first the WillyWeather search when the API key is set).
\<close>

theorem expired_entry_is_refetched:
  assumes "arg_lat rq = Some lat" and "lat \<noteq> []" and "arg_lon rq = Some lon" and "lon \<noteq> []"
    and "str_to_int e (case arg_days rq of None \<Rightarrow> ''7'' | Some s \<Rightarrow> s) = Some d"
    and "key = cache_key (resolve_provider cfg rq) lat lon d"
    and "c key = Some (expiry, data)" and "expiry < t_get"
  shows "cache_get key t_get c = (None, c(key := None)) \<and>
         weather e cfg t_get t_set rq c =
           weather_miss e cfg t_set (resolve_provider cfg rq) lat lon d (c(key := None)) \<and>
         (\<forall>st body c' calls. weather e cfg t_get t_set rq c = (Response st body, c', calls)
            \<longrightarrow> map_of body ''source'' = None) \<and>
         (\<forall>la lo. \<not> mock_selected cfg (resolve_provider cfg rq) \<and>
            str_to_float e lat = Some la \<and> str_to_float e lon = Some lo \<longrightarrow>
            (resolve_provider cfg rq = ''open-meteo'' \<longrightarrow>
               snd (snd (weather e cfg t_get t_set rq c)) = [OpenMeteoGet la lo d]) \<and>
            (resolve_provider cfg rq = ''willyweather'' \<and> WILLYWEATHER_API_KEY cfg \<noteq> [] \<longrightarrow>
               (\<exists>rest. snd (snd (weather e cfg t_get t_set rq c))
                  = WillySearch (WILLYWEATHER_API_KEY cfg) la lo # rest)))"
proof -
  have get: "cache_get key t_get c = (None, c(key := None))"
    using assms(7,8) by (simp add: cache_get_def)
  have run: "weather e cfg t_get t_set rq c =
           weather_miss e cfg t_set (resolve_provider cfg rq) lat lon d (c(key := None))"
    unfolding weather_unfold [OF assms(1-5)] using get assms(6) by simp
  have nosrc: "\<forall>st body c' calls. weather e cfg t_get t_set rq c = (Response st body, c', calls)
            \<longrightarrow> map_of body ''source'' = None"
    unfolding run by (auto dest: weather_miss_no_source)
  have fetch: "\<forall>la lo. \<not> mock_selected cfg (resolve_provider cfg rq) \<and>
            str_to_float e lat = Some la \<and> str_to_float e lon = Some lo \<longrightarrow>
            (resolve_provider cfg rq = ''open-meteo'' \<longrightarrow>
               snd (snd (weather e cfg t_get t_set rq c)) = [OpenMeteoGet la lo d]) \<and>
            (resolve_provider cfg rq = ''willyweather'' \<and> WILLYWEATHER_API_KEY cfg \<noteq> [] \<longrightarrow>
               (\<exists>rest. snd (snd (weather e cfg t_get t_set rq c))
                  = WillySearch (WILLYWEATHER_API_KEY cfg) la lo # rest))"
  proof (intro allI impI conjI)
    fix la lo
    assume a: "\<not> mock_selected cfg (resolve_provider cfg rq) \<and>
            str_to_float e lat = Some la \<and> str_to_float e lon = Some lo"
    assume p: "resolve_provider cfg rq = ''open-meteo''"
    from a p show "snd (snd (weather e cfg t_get t_set rq c)) = [OpenMeteoGet la lo d]"
      unfolding run by (simp add: weather_miss_open_meteo_calls)
  next
    fix la lo
    assume a: "\<not> mock_selected cfg (resolve_provider cfg rq) \<and>
            str_to_float e lat = Some la \<and> str_to_float e lon = Some lo"
    assume p: "resolve_provider cfg rq = ''willyweather'' \<and> WILLYWEATHER_API_KEY cfg \<noteq> []"
    from a p have "\<exists>rest. snd (snd (weather_miss e cfg t_set ''willyweather'' lat lon d (c(key := None))))
           = WillySearch (WILLYWEATHER_API_KEY cfg) la lo # rest"
      by (intro weather_miss_willy_calls) simp_all
    with p show "\<exists>rest. snd (snd (weather e cfg t_get t_set rq c))
                  = WillySearch (WILLYWEATHER_API_KEY cfg) la lo # rest"
      unfolding run by simp
  qed
  from get run nosrc fetch show ?thesis by blast
qed

lemma example_key: "cache_key ''open-meteo'' ''-37'' ''145'' 3 = ''weather:open-meteo:-37:145:3''"
  by (simp add: cache_key_def str_of_int_def digit_char_def)

lemma resolve_example_config: "resolve_provider example_config example_request = ''open-meteo''"
  by (simp add: resolve_provider_def example_config_def example_request_def py_strip_def
      py_lower_def is_space_def)

text \<open>Read at time 200, the entry that expired at 100 is dropped and Open-Meteo is asked again.\<close>

theorem expired_entry_is_refetched_witness:
  "cache_get ''weather:open-meteo:-37:145:3'' 200 stale_cache =
     (None, stale_cache(''weather:open-meteo:-37:145:3'' := None)) \<and>
   snd (snd (weather example_meteo_env example_config 200 201 example_request stale_cache)) =
     [OpenMeteoGet (-37) 145 3]"
proof -
  have h1: "arg_lat example_request = Some ''-37''" and h2: "''-37'' \<noteq> []"
    and h3: "arg_lon example_request = Some ''145''" and h4: "''145'' \<noteq> []"
    by (simp_all add: example_request_def)
  have h5: "str_to_int example_meteo_env (case arg_days example_request of None \<Rightarrow> ''7'' | Some s \<Rightarrow> s) = Some 3"
    by (simp add: example_request_def example_meteo_env_def plain_env_def plain_int_3)
  have h6: "''weather:open-meteo:-37:145:3'' =
              cache_key (resolve_provider example_config example_request) ''-37'' ''145'' 3"
    by (simp only: resolve_example_config example_key)
  have h7: "stale_cache ''weather:open-meteo:-37:145:3'' = Some (100, [(''days'', PInt 3)])"
    by (simp add: stale_cache_def)
  have h8: "(100::real) < 200" by simp
  have nm: "\<not> mock_selected example_config (resolve_provider example_config example_request)"
    unfolding resolve_example_config by (simp add: mock_selected_def example_config_def)
  have fl: "str_to_float example_meteo_env ''-37'' = Some (-37)"
    "str_to_float example_meteo_env ''145'' = Some 145"
    by (simp_all add: example_meteo_env_def plain_env_def plain_float_lat plain_float_lon)
  from expired_entry_is_refetched [where c = stale_cache and cfg = example_config and t_set = 201,
      OF h1 h2 h3 h4 h5 h6 h7 h8] nm fl
    resolve_example_config
  show ?thesis by blast
qed

text \<open>
  Claim C4. Let a request (lat and lon present, integer days) find nothing in the cache
  and succeed with status 200. Then its response is stored under the request's key with
  expiry \<open>t_set + CACHE_TTL_SECONDS\<close>; and after any requests handled in between, each
  read no later than that expiry, an identical request read no later than that expiry is
  answered from the cache, whatever the network does: status 200, no upstream request,
  the cache unchanged, the body being the first response with \<open>source: "cache"\<close> added
  and the same \<open>forecast\<close>.
\<close>

theorem repeat_within_ttl_is_cached:
  assumes "arg_lat rq = Some lat" and "lat \<noteq> []" and "arg_lon rq = Some lon" and "lon \<noteq> []"
    and "str_to_int e (case arg_days rq of None \<Rightarrow> ''7'' | Some s \<Rightarrow> s) = Some d"
    and "key = cache_key (resolve_provider cfg rq) lat lon d"
    and "cache_miss key t1 c"
    and "weather e cfg t1 t1' rq c = (Response 200 body, c1, calls)"
    and "list_all (\<lambda>x. fst (snd x) \<le> t1' + real_of_int (CACHE_TTL_SECONDS cfg)) rs"
    and "t2 \<le> t1' + real_of_int (CACHE_TTL_SECONDS cfg)"
  shows "c1 key = Some (t1' + real_of_int (CACHE_TTL_SECONDS cfg), body) \<and>
         weather (e\<lparr>net := nw\<rparr>) cfg t2 t2' rq (serve_all e cfg rs c1) =
           (Response 200 (dict_merge [(''source'', PStr ''cache'')] body), serve_all e cfg rs c1, []) \<and>
         map_of (dict_merge [(''source'', PStr ''cache'')] body) ''source'' = Some (PStr ''cache'') \<and>
         map_of (dict_merge [(''source'', PStr ''cache'')] body) ''forecast'' = map_of body ''forecast''"
proof -
  let ?exp = "t1' + real_of_int (CACHE_TTL_SECONDS cfg)"
  let ?c0 = "snd (cache_get key t1 c)"
  have miss: "weather_miss e cfg t1' (resolve_provider cfg rq) lat lon d ?c0 = (Response 200 body, c1, calls)"
    using weather_on_miss [OF assms(1-5) assms(7) [unfolded assms(6)], of t1'] assms(8)
    by (simp add: assms(6))
  from weather_miss_cases [OF miss] obtain loc fc where
    c1: "c1 = cache_set key body (CACHE_TTL_SECONDS cfg) t1' ?c0" and
    shape: "body = [(''location'', loc), (''days'', PInt d), (''mock'', PBool True), (''forecast'', fc)] \<or>
            body = [(''location'', loc), (''days'', PInt d), (''forecast'', fc)]"
    by (auto simp: assms(6))
  have stored: "c1 key = Some (?exp, body)"
    by (simp add: c1 cache_set_def)
  from shape have ne: "body \<noteq> []" by auto
  have live: "serve_all e cfg rs c1 key = Some (?exp, body)"
    using stored ne assms(9) by (rule serve_all_keeps_live)
  have days': "str_to_int (e\<lparr>net := nw\<rparr>) (case arg_days rq of None \<Rightarrow> ''7'' | Some s \<Rightarrow> s) = Some d"
    using assms(5) by simp
  have "\<not> ?exp < t2" using assms(10) by simp
  from weather_on_hit [where c = "serve_all e cfg rs c1" and cfg = cfg and t_set = t2',
      OF assms(1-4) days' live [unfolded assms(6)] this ne]
  have hit: "weather (e\<lparr>net := nw\<rparr>) cfg t2 t2' rq (serve_all e cfg rs c1) =
           (Response 200 (dict_merge [(''source'', PStr ''cache'')] body), serve_all e cfg rs c1, [])" .
  from shape have src: "map_of (dict_merge [(''source'', PStr ''cache'')] body) ''source'' = Some (PStr ''cache'')"
    by (auto simp: dict_merge_source_mock dict_merge_source_plain)
  from shape have fc: "map_of (dict_merge [(''source'', PStr ''cache'')] body) ''forecast'' = map_of body ''forecast''"
    by (auto simp: dict_merge_source_mock dict_merge_source_plain)
  from stored hit src fc show ?thesis by blast
qed

lemma example_first_response:
  "weather down_env mock_default_config t_get t_set example_request Map.empty =
     (Response 200 (mock_data (-37) 145 3),
      cache_set ''weather:open-meteo:-37:145:3'' (mock_data (-37) 145 3) 300 t_set Map.empty, [])"
proof -
  have h1: "arg_lat example_request = Some ''-37''" and h2: "''-37'' \<noteq> []"
    and h3: "arg_lon example_request = Some ''145''" and h4: "''145'' \<noteq> []"
    by (simp_all add: example_request_def)
  have h5: "str_to_int down_env (case arg_days example_request of None \<Rightarrow> ''7'' | Some s \<Rightarrow> s) = Some 3"
    by (simp add: example_request_def down_env_def plain_env_def plain_int_3)
  have h6: "cache_miss (cache_key (resolve_provider mock_default_config example_request) ''-37'' ''145'' 3)
              t_get Map.empty"
    by (simp add: cache_miss_def cache_get_def)
  have h7: "mock_selected mock_default_config (resolve_provider mock_default_config example_request)"
    unfolding mock_selected_def resolve_example by (simp add: mock_default_config_def)
  have h8: "str_to_float down_env ''-37'' = Some (-37)" and h9: "str_to_float down_env ''145'' = Some 145"
    by (simp_all add: down_env_def plain_env_def plain_float_lat plain_float_lon)
  have "weather down_env mock_default_config t_get t_set example_request Map.empty
          = weather_miss down_env mock_default_config t_set
              (resolve_provider mock_default_config example_request) ''-37'' ''145'' 3 Map.empty"
    using weather_on_miss [OF h1 h2 h3 h4 h5 h6, of t_set] by (simp add: cache_get_def)
  also have "\<dots> = (Response 200 (mock_data (-37) 145 3),
           cache_set ''weather:open-meteo:-37:145:3'' (mock_data (-37) 145 3) 300 t_set Map.empty, [])"
    using weather_miss_mock [OF h7 h8 h9, of t_set 3 Map.empty]
    by (simp add: resolve_example example_key) (simp add: mock_default_config_def)
  finally show ?thesis .
qed

text \<open>
  A mock response stored at time 1 with a TTL of 300, another request handled at time
  10, and the repeat read at time 301, the last moment before expiry, with the network
  unreachable.
\<close>

theorem repeat_within_ttl_is_cached_witness:
  "fst (weather (down_env\<lparr>net := (\<lambda>rq. ConnError ''unreachable'')\<rparr>) mock_default_config 301 302
          example_request
          (serve_all down_env mock_default_config
             [((\<lambda>rq. ConnTimeout), 10, 11, example_request)]
             (cache_set ''weather:open-meteo:-37:145:3'' (mock_data (-37) 145 3) 300 1 Map.empty)))
     = Response 200 (dict_merge [(''source'', PStr ''cache'')] (mock_data (-37) 145 3)) \<and>
   map_of (dict_merge [(''source'', PStr ''cache'')] (mock_data (-37) 145 3)) ''source''
     = Some (PStr ''cache'')"
proof -
  have h1: "arg_lat example_request = Some ''-37''" and h2: "''-37'' \<noteq> []"
    and h3: "arg_lon example_request = Some ''145''" and h4: "''145'' \<noteq> []"
    by (simp_all add: example_request_def)
  have h5: "str_to_int down_env (case arg_days example_request of None \<Rightarrow> ''7'' | Some s \<Rightarrow> s) = Some 3"
    by (simp add: example_request_def down_env_def plain_env_def plain_int_3)
  have h6: "''weather:open-meteo:-37:145:3'' =
              cache_key (resolve_provider mock_default_config example_request) ''-37'' ''145'' 3"
    by (simp only: resolve_example example_key)
  have h7: "cache_miss ''weather:open-meteo:-37:145:3'' 0 Map.empty"
    by (simp add: cache_miss_def cache_get_def)
  have h9: "list_all (\<lambda>x. fst (snd x) \<le> 1 + real_of_int (CACHE_TTL_SECONDS mock_default_config))
              [((\<lambda>rq. ConnTimeout), 10, 11, example_request)]"
    by (simp add: mock_default_config_def)
  have h10: "(301::real) \<le> 1 + real_of_int (CACHE_TTL_SECONDS mock_default_config)"
    by (simp add: mock_default_config_def)
  from repeat_within_ttl_is_cached [where c = Map.empty and cfg = mock_default_config
      and t2' = 302 and nw = "\<lambda>rq. ConnError ''unreachable''",
      OF h1 h2 h3 h4 h5 h6 h7 example_first_response h9 h10]
  show ?thesis by simp
qed

text \<open>
  Claim C1 at its failing inputs. \<open>int(request.args.get('days', '7'))\<close> on line 231 and
  \<open>float(lat)\<close> on line 246 stand outside every \<open>try\<close>: a request with \<open>days=abc\<close>, and a
  mock request with \<open>lat=abc\<close>, make \<open>ValueError\<close> leave the handler instead of a status
  and JSON error body.
\<close>

theorem unparsed_input_escapes_handler:
  "weather down_env example_config 0 0
     \<lparr>arg_lat = Some ''-37'', arg_lon = Some ''145'', arg_days = Some ''abc'', arg_provider = None\<rparr>
     Map.empty
   = (Raised (ValueError ''invalid literal for int()''), Map.empty, []) \<and>
   weather down_env example_config 0 0
     \<lparr>arg_lat = Some ''abc'', arg_lon = Some ''145'', arg_days = Some ''3'', arg_provider = Some ''mock''\<rparr>
     Map.empty
   = (Raised (ValueError ''could not convert string to float''), Map.empty, [])"
proof -
  have "plain_int ''abc'' = None" by (simp add: plain_int_def)
  then have a: "weather down_env example_config 0 0
     \<lparr>arg_lat = Some ''-37'', arg_lon = Some ''145'', arg_days = Some ''abc'', arg_provider = None\<rparr>
     Map.empty
   = (Raised (ValueError ''invalid literal for int()''), Map.empty, [])"
    by (simp add: weather_def down_env_def plain_env_def)
  have p: "resolve_provider example_config
             \<lparr>arg_lat = Some ''abc'', arg_lon = Some ''145'', arg_days = Some ''3'', arg_provider = Some ''mock''\<rparr>
           = ''mock''"
    by (simp add: resolve_provider_def py_strip_def py_lower_def is_space_def)
  have f: "plain_float ''abc'' = None" by (simp add: plain_float_def plain_int_def)
  have b: "weather down_env example_config 0 0
     \<lparr>arg_lat = Some ''abc'', arg_lon = Some ''145'', arg_days = Some ''3'', arg_provider = Some ''mock''\<rparr>
     Map.empty
   = (Raised (ValueError ''could not convert string to float''), Map.empty, [])"
    by (simp add: weather_def down_env_def plain_env_def plain_int_3 p cache_get_def
        weather_miss_def mock_selected_def f Let_def)
  from a b show ?thesis by simp
qed

text \<open>
  Claim C6 at its failing input. With lat and lon absent and \<open>days=abc\<close> the handler
  raises \<open>ValueError\<close> on line 231, before the presence check of line 234; with
  \<open>days=3\<close> the same request gets the 400 answer.
\<close>

theorem missing_coordinates_with_bad_days:
  "weather down_env example_config 0 0
     \<lparr>arg_lat = None, arg_lon = None, arg_days = Some ''abc'', arg_provider = None\<rparr> Map.empty
   = (Raised (ValueError ''invalid literal for int()''), Map.empty, []) \<and>
   weather down_env example_config 0 0
     \<lparr>arg_lat = None, arg_lon = None, arg_days = Some ''3'', arg_provider = None\<rparr> Map.empty
   = (Response 400 [(''error'', PStr ''lat and lon are required'')], Map.empty, [])"
proof -
  have "plain_int ''abc'' = None" by (simp add: plain_int_def)
  then show ?thesis
    by (simp add: weather_def down_env_def plain_env_def plain_int_3 Let_def)
qed

lemma weather_miss_willy_not_found:
  assumes "\<not> mock_selected cfg ''willyweather''"
    and "str_to_float e lat = Some la" and "str_to_float e lon = Some lo"
    and "WILLYWEATHER_API_KEY cfg \<noteq> []"
    and "net e (WillySearch (WILLYWEATHER_API_KEY cfg) la lo) = HttpResponse st (Some data)"
    and "\<not> (400 \<le> st \<and> st < 600)"
    and "location_id_of e data = Inr None \<or> location_id_of e data = Inr (Some 0)"
  shows "weather_miss e cfg t_set ''willyweather'' lat lon d c =
           (Response 404 [(''error'', PStr ''No WillyWeather location found for coordinates'')], c,
            [WillySearch (WILLYWEATHER_API_KEY cfg) la lo])"
  using assms
  by (auto simp: weather_miss_def Let_def dispatch_def willyweather_find_location_id_def
      http_get_json_def)

lemma py_int_raises:
  "py_int e v = Inl err \<Longrightarrow>
   handle_exc err = (502, [(''error'', PStr ''Upstream failure''), (''detail'', PStr (exc_str err))])"
  by (cases v) (auto split: option.splits)

lemma weather_miss_willy_bad_id:
  assumes "\<not> mock_selected cfg ''willyweather''"
    and "str_to_float e lat = Some la" and "str_to_float e lon = Some lo"
    and "WILLYWEATHER_API_KEY cfg \<noteq> []"
    and "net e (WillySearch (WILLYWEATHER_API_KEY cfg) la lo) = HttpResponse st (Some data)"
    and "\<not> (400 \<le> st \<and> st < 600)"
    and "location_id_of e data = Inl err"
    and "handle_exc err =
           (502, [(''error'', PStr ''Upstream failure''), (''detail'', PStr (exc_str err))])"
  shows "weather_miss e cfg t_set ''willyweather'' lat lon d c =
           (Response 502 [(''error'', PStr ''Upstream failure''), (''detail'', PStr (exc_str err))], c,
            [WillySearch (WILLYWEATHER_API_KEY cfg) la lo])"
  using assms
  by (auto simp: weather_miss_def Let_def dispatch_def willyweather_find_location_id_def
      http_get_json_def)

lemma py_int_zero:
  assumes "idv \<in> set [PInt 0, PFloat 0, PBool False] \<or> (\<exists>s. idv = PStr s \<and> str_to_int e s = Some 0)"
  shows "py_int e idv = Inr 0"
  using assms by (auto simp: trunc_real_def)

lemma py_int_rejects:
  assumes "idv \<in> set [PNone, PList [], PDict []] \<or> (\<exists>s. idv = PStr s \<and> str_to_int e s = None)"
  shows "\<exists>err. py_int e idv = Inl err"
  using assms by auto

text \<open>
  Claim C10, as amended. For a WillyWeather request (lat and lon present and parseable,
  integer days, no cached answer, mock not selected, API key set) whose location search
  is answered with a non-error status and a JSON object: if the object holds a non-empty
  location object whose id converts under \<open>int()\<close> to 0 (as do 0, 0.0, false and every
  string that \<open>int()\<close> reads as 0), the handler answers 404 with the no-location-found
  body, after the one search request and with no forecast request, exactly as it does
  when the object holds no location. If \<open>int()\<close> raises on the id,
  the handler answers 502 "Upstream failure" with the text of the exception as detail,
  again after the one search request; \<open>int()\<close> raises on null, on an empty list, on an
  empty object and on every string it cannot read (the empty string among them, for the
  builtin). In all three cases the cache is left as the lookup left it.
\<close>

theorem zero_location_id_not_found:
  assumes "arg_lat rq = Some lat" and "lat \<noteq> []" and "arg_lon rq = Some lon" and "lon \<noteq> []"
    and "str_to_int e (case arg_days rq of None \<Rightarrow> ''7'' | Some s \<Rightarrow> s) = Some d"
    and "cache_miss (cache_key (resolve_provider cfg rq) lat lon d) t_get c"
    and "resolve_provider cfg rq = ''willyweather''"
    and "\<not> mock_selected cfg ''willyweather''"
    and "str_to_float e lat = Some la" and "str_to_float e lon = Some lo"
    and "WILLYWEATHER_API_KEY cfg \<noteq> []"
    and "net e (WillySearch (WILLYWEATHER_API_KEY cfg) la lo) = HttpResponse st (Some (PDict data))"
    and "\<not> (400 \<le> st \<and> st < 600)"
  shows "(dict_get data ''location'' PNone = PDict loc \<and> loc \<noteq> [] \<and>
            py_int e (dict_get loc ''id'' PNone) = Inr 0
          \<longrightarrow> weather e cfg t_get t_set rq c =
                (Response 404 [(''error'', PStr ''No WillyWeather location found for coordinates'')],
                 snd (cache_get (cache_key ''willyweather'' lat lon d) t_get c),
                 [WillySearch (WILLYWEATHER_API_KEY cfg) la lo])) \<and>
         (dict_get data ''location'' PNone = PNone
          \<longrightarrow> weather e cfg t_get t_set rq c =
                (Response 404 [(''error'', PStr ''No WillyWeather location found for coordinates'')],
                 snd (cache_get (cache_key ''willyweather'' lat lon d) t_get c),
                 [WillySearch (WILLYWEATHER_API_KEY cfg) la lo])) \<and>
         (dict_get data ''location'' PNone = PDict loc \<and> loc \<noteq> [] \<and>
            py_int e (dict_get loc ''id'' PNone) = Inl err
          \<longrightarrow> weather e cfg t_get t_set rq c =
                (Response 502 [(''error'', PStr ''Upstream failure''), (''detail'', PStr (exc_str err))],
                 snd (cache_get (cache_key ''willyweather'' lat lon d) t_get c),
                 [WillySearch (WILLYWEATHER_API_KEY cfg) la lo])) \<and>
         (dict_get data ''location'' PNone = PDict loc \<and> loc \<noteq> [] \<and>
            (dict_get loc ''id'' PNone \<in> set [PNone, PList [], PDict []] \<or>
             (\<exists>s. dict_get loc ''id'' PNone = PStr s \<and> str_to_int e s = None))
          \<longrightarrow> (\<exists>detail. weather e cfg t_get t_set rq c =
                (Response 502 [(''error'', PStr ''Upstream failure''), (''detail'', PStr detail)],
                 snd (cache_get (cache_key ''willyweather'' lat lon d) t_get c),
                 [WillySearch (WILLYWEATHER_API_KEY cfg) la lo]))) \<and>
         (dict_get data ''location'' PNone = PDict loc \<and> loc \<noteq> [] \<and>
            (dict_get loc ''id'' PNone \<in> set [PInt 0, PFloat 0, PBool False] \<or>
             (\<exists>s. dict_get loc ''id'' PNone = PStr s \<and> str_to_int e s = Some 0))
          \<longrightarrow> weather e cfg t_get t_set rq c =
                (Response 404 [(''error'', PStr ''No WillyWeather location found for coordinates'')],
                 snd (cache_get (cache_key ''willyweather'' lat lon d) t_get c),
                 [WillySearch (WILLYWEATHER_API_KEY cfg) la lo]))"
proof (intro conjI impI)
  assume "dict_get data ''location'' PNone = PDict loc \<and> loc \<noteq> [] \<and>
            py_int e (dict_get loc ''id'' PNone) = Inr 0"
  then have "location_id_of e (PDict data) = Inr (Some 0)"
    by (simp add: location_id_of_def)
  then have "location_id_of e (PDict data) = Inr None \<or> location_id_of e (PDict data) = Inr (Some 0)"
    by simp
  from weather_miss_willy_not_found [OF assms(8-13) this]
  show "weather e cfg t_get t_set rq c =
                (Response 404 [(''error'', PStr ''No WillyWeather location found for coordinates'')],
                 snd (cache_get (cache_key ''willyweather'' lat lon d) t_get c),
                 [WillySearch (WILLYWEATHER_API_KEY cfg) la lo])"
    unfolding weather_on_miss [OF assms(1-6)] assms(7) by simp
next
  assume "dict_get data ''location'' PNone = PNone"
  then have "location_id_of e (PDict data) = Inr None"
    by (simp add: location_id_of_def)
  then have "location_id_of e (PDict data) = Inr None \<or> location_id_of e (PDict data) = Inr (Some 0)"
    by simp
  from weather_miss_willy_not_found [OF assms(8-13) this]
  show "weather e cfg t_get t_set rq c =
                (Response 404 [(''error'', PStr ''No WillyWeather location found for coordinates'')],
                 snd (cache_get (cache_key ''willyweather'' lat lon d) t_get c),
                 [WillySearch (WILLYWEATHER_API_KEY cfg) la lo])"
    unfolding weather_on_miss [OF assms(1-6)] assms(7) by simp
next
  have raised: "weather e cfg t_get t_set rq c =
                (Response 502 [(''error'', PStr ''Upstream failure''), (''detail'', PStr (exc_str x))],
                 snd (cache_get (cache_key ''willyweather'' lat lon d) t_get c),
                 [WillySearch (WILLYWEATHER_API_KEY cfg) la lo])"
    if loc: "dict_get data ''location'' PNone = PDict loc" "loc \<noteq> []"
      and bad: "py_int e (dict_get loc ''id'' PNone) = Inl x" for x
  proof -
    from loc bad have "location_id_of e (PDict data) = Inl x"
      by (simp add: location_id_of_def)
    from weather_miss_willy_bad_id [OF assms(8-13) this py_int_raises [OF bad]]
    show ?thesis
      unfolding weather_on_miss [OF assms(1-6)] assms(7) by simp
  qed
  {
    assume "dict_get data ''location'' PNone = PDict loc \<and> loc \<noteq> [] \<and>
              py_int e (dict_get loc ''id'' PNone) = Inl err"
    then show "weather e cfg t_get t_set rq c =
                (Response 502 [(''error'', PStr ''Upstream failure''), (''detail'', PStr (exc_str err))],
                 snd (cache_get (cache_key ''willyweather'' lat lon d) t_get c),
                 [WillySearch (WILLYWEATHER_API_KEY cfg) la lo])"
      using raised by blast
  next
    assume a: "dict_get data ''location'' PNone = PDict loc \<and> loc \<noteq> [] \<and>
            (dict_get loc ''id'' PNone \<in> set [PNone, PList [], PDict []] \<or>
             (\<exists>s. dict_get loc ''id'' PNone = PStr s \<and> str_to_int e s = None))"
    then obtain x where "py_int e (dict_get loc ''id'' PNone) = Inl x"
      using py_int_rejects [of "dict_get loc ''id'' PNone" e] by blast
    with a raised show "\<exists>detail. weather e cfg t_get t_set rq c =
                (Response 502 [(''error'', PStr ''Upstream failure''), (''detail'', PStr detail)],
                 snd (cache_get (cache_key ''willyweather'' lat lon d) t_get c),
                 [WillySearch (WILLYWEATHER_API_KEY cfg) la lo])"
      by blast
  next
    assume a: "dict_get data ''location'' PNone = PDict loc \<and> loc \<noteq> [] \<and>
            (dict_get loc ''id'' PNone \<in> set [PInt 0, PFloat 0, PBool False] \<or>
             (\<exists>s. dict_get loc ''id'' PNone = PStr s \<and> str_to_int e s = Some 0))"
    then have "py_int e (dict_get loc ''id'' PNone) = Inr 0"
      using py_int_zero [of "dict_get loc ''id'' PNone" e] by blast
    with a have "location_id_of e (PDict data) = Inr (Some 0)"
      by (simp add: location_id_of_def)
    then have "location_id_of e (PDict data) = Inr None \<or> location_id_of e (PDict data) = Inr (Some 0)"
      by simp
    from weather_miss_willy_not_found [OF assms(8-13) this]
    show "weather e cfg t_get t_set rq c =
                (Response 404 [(''error'', PStr ''No WillyWeather location found for coordinates'')],
                 snd (cache_get (cache_key ''willyweather'' lat lon d) t_get c),
                 [WillySearch (WILLYWEATHER_API_KEY cfg) la lo])"
      unfolding weather_on_miss [OF assms(1-6)] assms(7) by simp
  }
qed

lemma resolve_willy: "resolve_provider example_config willy_request = ''willyweather''"
  by (simp add: resolve_provider_def willy_request_def py_strip_def py_lower_def is_space_def)

lemma willy_request_unfold:
  "weather (location_env idv) example_config 0 0 willy_request Map.empty =
     weather_miss (location_env idv) example_config 0 ''willyweather'' ''-37'' ''145'' 3 Map.empty"
proof -
  have h1: "arg_lat willy_request = Some ''-37''" and h2: "''-37'' \<noteq> []"
    and h3: "arg_lon willy_request = Some ''145''" and h4: "''145'' \<noteq> []"
    by (simp_all add: willy_request_def)
  have h5: "str_to_int (location_env idv) (case arg_days willy_request of None \<Rightarrow> ''7'' | Some s \<Rightarrow> s) = Some 3"
    by (simp add: willy_request_def location_env_def plain_env_def plain_int_3)
  have h6: "cache_miss (cache_key (resolve_provider example_config willy_request) ''-37'' ''145'' 3)
              0 Map.empty"
    by (simp add: cache_miss_def cache_get_def)
  show ?thesis
    using weather_on_miss [OF h1 h2 h3 h4 h5 h6, of 0] by (simp add: cache_get_def resolve_willy)
qed

text \<open>
  Claim C10 as stated fails for a falsy id that \<open>int()\<close> rejects: with the id \<open>null\<close> the
  conversion on line 170 raises, and the handler answers 502, not 404.
\<close>

theorem null_location_id_counterexample:
  "\<not> truthy PNone \<and>
   response_status (fst (weather (location_env PNone) example_config 0 0 willy_request Map.empty))
     = Some 502 \<and>
   fst (weather (location_env PNone) example_config 0 0 willy_request Map.empty)
     \<noteq> Response 404 [(''error'', PStr ''No WillyWeather location found for coordinates'')]"
proof -
  have fl: "plain_float ''-37'' = Some (-37)" "plain_float ''145'' = Some 145"
    by (simp_all add: plain_float_lat plain_float_lon)
  have "fst (weather (location_env PNone) example_config 0 0 willy_request Map.empty)
          = Response 502 [(''error'', PStr ''Upstream failure''),
                          (''detail'', PStr ''int() argument must be a string or a number'')]"
    unfolding willy_request_unfold
    by (simp add: weather_miss_def Let_def mock_selected_def example_config_def location_env_def
        plain_env_def fl dispatch_def willyweather_find_location_id_def http_get_json_def
        location_id_of_def dict_get_def)
  then show ?thesis by (simp add: response_status_def)
qed

text \<open>
  The ids \<open>0\<close> and \<open>"0"\<close> both give the 404 answer; the empty string, which \<open>int()\<close>
  rejects, gives 502.
\<close>

theorem zero_location_id_not_found_witness:
  "weather (location_env (PInt 0)) example_config 0 0 willy_request Map.empty =
     (Response 404 [(''error'', PStr ''No WillyWeather location found for coordinates'')],
      Map.empty, [WillySearch ''k'' (-37) 145]) \<and>
   weather (location_env (PStr ''0'')) example_config 0 0 willy_request Map.empty =
     (Response 404 [(''error'', PStr ''No WillyWeather location found for coordinates'')],
      Map.empty, [WillySearch ''k'' (-37) 145]) \<and>
   (\<exists>detail. weather (location_env (PStr [])) example_config 0 0 willy_request Map.empty =
     (Response 502 [(''error'', PStr ''Upstream failure''), (''detail'', PStr detail)],
      Map.empty, [WillySearch ''k'' (-37) 145]))"
proof -
  have h1: "arg_lat willy_request = Some ''-37''" and h2: "''-37'' \<noteq> []"
    and h3: "arg_lon willy_request = Some ''145''" and h4: "''145'' \<noteq> []"
    by (simp_all add: willy_request_def)
  have h5: "\<And>idv. str_to_int (location_env idv) (case arg_days willy_request of None \<Rightarrow> ''7'' | Some s \<Rightarrow> s) = Some 3"
    by (simp add: willy_request_def location_env_def plain_env_def plain_int_3)
  have h6: "cache_miss (cache_key (resolve_provider example_config willy_request) ''-37'' ''145'' 3)
              0 Map.empty"
    by (simp add: cache_miss_def cache_get_def)
  have h8: "\<not> mock_selected example_config ''willyweather''"
    by (simp add: mock_selected_def example_config_def)
  have h9: "\<And>idv. str_to_float (location_env idv) ''-37'' = Some (-37)"
    and h10: "\<And>idv. str_to_float (location_env idv) ''145'' = Some 145"
    by (simp_all add: location_env_def plain_env_def plain_float_lat plain_float_lon)
  have h11: "WILLYWEATHER_API_KEY example_config \<noteq> []"
    by (simp add: example_config_def)
  have h12: "\<And>idv. net (location_env idv) (WillySearch (WILLYWEATHER_API_KEY example_config) (-37) 145)
               = HttpResponse 200 (Some (PDict [(''location'', PDict [(''id'', idv)])]))"
    by (simp add: location_env_def plain_env_def)
  have h13: "\<not> (400 \<le> (200::int) \<and> (200::int) < 600)" by simp
  have key: "WILLYWEATHER_API_KEY example_config = ''k''" by (simp add: example_config_def)
  have a: "dict_get [(''location'', PDict [(''id'', PInt 0)])] ''location'' PNone = PDict [(''id'', PInt 0)]
           \<and> [(''id'', PInt 0)] \<noteq> []
           \<and> py_int (location_env (PInt 0)) (dict_get [(''id'', PInt 0)] ''id'' PNone) = Inr 0"
    by (simp add: dict_get_def)
  have "plain_int ''0'' = Some 0" by (simp add: plain_int_def)
  then have b: "dict_get [(''location'', PDict [(''id'', PStr ''0'')])] ''location'' PNone = PDict [(''id'', PStr ''0'')]
           \<and> [(''id'', PStr ''0'')] \<noteq> []
           \<and> py_int (location_env (PStr ''0'')) (dict_get [(''id'', PStr ''0'')] ''id'' PNone) = Inr 0"
    by (simp add: dict_get_def location_env_def plain_env_def)
  from zero_location_id_not_found [where t_get = 0 and t_set = 0 and c = Map.empty,
      OF h1 h2 h3 h4 h5 h6 resolve_willy h8 h9 h10 h11 h12 h13] a
  have r1: "weather (location_env (PInt 0)) example_config 0 0 willy_request Map.empty =
     (Response 404 [(''error'', PStr ''No WillyWeather location found for coordinates'')],
      snd (cache_get (cache_key ''willyweather'' ''-37'' ''145'' 3) 0 Map.empty),
      [WillySearch (WILLYWEATHER_API_KEY example_config) (-37) 145])" by blast
  from zero_location_id_not_found [where t_get = 0 and t_set = 0 and c = Map.empty,
      OF h1 h2 h3 h4 h5 h6 resolve_willy h8 h9 h10 h11 h12 h13] b
  have r2: "weather (location_env (PStr ''0'')) example_config 0 0 willy_request Map.empty =
     (Response 404 [(''error'', PStr ''No WillyWeather location found for coordinates'')],
      snd (cache_get (cache_key ''willyweather'' ''-37'' ''145'' 3) 0 Map.empty),
      [WillySearch (WILLYWEATHER_API_KEY example_config) (-37) 145])" by blast
  have "plain_int [] = None" by (simp add: plain_int_def)
  then have c: "dict_get [(''location'', PDict [(''id'', PStr [])])] ''location'' PNone = PDict [(''id'', PStr [])]
           \<and> [(''id'', PStr [])] \<noteq> []
           \<and> (dict_get [(''id'', PStr [])] ''id'' PNone \<in> set [PNone, PList [], PDict []] \<or>
              (\<exists>s. dict_get [(''id'', PStr [])] ''id'' PNone = PStr s \<and>
                   str_to_int (location_env (PStr [])) s = None))"
    by (simp add: dict_get_def location_env_def plain_env_def)
  from zero_location_id_not_found [where t_get = 0 and t_set = 0 and c = Map.empty,
      OF h1 h2 h3 h4 h5 h6 resolve_willy h8 h9 h10 h11 h12 h13] c
  have r3: "\<exists>detail. weather (location_env (PStr [])) example_config 0 0 willy_request Map.empty =
     (Response 502 [(''error'', PStr ''Upstream failure''), (''detail'', PStr detail)],
      snd (cache_get (cache_key ''willyweather'' ''-37'' ''145'' 3) 0 Map.empty),
      [WillySearch (WILLYWEATHER_API_KEY example_config) (-37) 145])" by blast
  from r1 r2 r3 show ?thesis by (simp add: cache_get_def key)
qed

end
